theory Spec2Isabelle
  imports Main "HOL-Library.AList"
begin

section \<open>Errors and recovery (errors.ts)\<close>

text \<open>
  An error value as \<open>getRecoveryStrategy\<close> can receive it (its parameter has type
  \<open>unknown\<close>): an instance of \<open>WebSocketError\<close> (or of one of its subclasses) with
  its \<open>code\<close> and optional \<open>statusCode\<close>, an \<open>Error\<close> that is not a
  \<open>WebSocketError\<close>, or a thrown value that is no \<open>Error\<close> at all.
\<close>

datatype js_error =
    WebSocketError string "int option"
  | PlainError string
  | NonError

text \<open>The subclasses fix the code and the status in their constructors.\<close>

definition RouteNotFoundError :: "string \<Rightarrow> js_error" where
  "RouteNotFoundError path = WebSocketError ''ROUTE_NOT_FOUND'' (Some 404)"

definition HandlerNotFoundError :: "string \<Rightarrow> js_error" where
  "HandlerNotFoundError path = WebSocketError ''HANDLER_NOT_FOUND'' (Some 400)"

definition ModuleImportError :: "string \<Rightarrow> js_error" where
  "ModuleImportError path = WebSocketError ''MODULE_IMPORT_ERROR'' (Some 500)"

definition ServerNotAvailableError :: "string \<Rightarrow> js_error" where
  "ServerNotAvailableError reason = WebSocketError ''SERVER_NOT_AVAILABLE'' (Some 503)"

definition ConnectionLimitError :: "int \<Rightarrow> js_error" where
  "ConnectionLimitError maxConns = WebSocketError ''CONNECTION_LIMIT_EXCEEDED'' (Some 429)"

definition HandlerExecutionError :: "string \<Rightarrow> js_error \<Rightarrow> js_error" where
  "HandlerExecutionError path originalError =
     WebSocketError ''HANDLER_EXECUTION_ERROR'' (Some 500)"

fun isWebSocketError :: "js_error \<Rightarrow> bool" where
  "isWebSocketError (WebSocketError c s) = True"
| "isWebSocketError (PlainError m) = False"
| "isWebSocketError NonError = False"

datatype RecoveryStrategy =
    CLOSE_CONNECTION
  | TERMINATE_CONNECTION
  | RETRY
  | IGNORE

text \<open>The \<open>switch\<close> on \<open>error.code\<close>, case by case in the order of the source.\<close>

fun getRecoveryStrategy :: "js_error \<Rightarrow> RecoveryStrategy" where
  "getRecoveryStrategy (WebSocketError c s) =
     (if c = ''ROUTE_NOT_FOUND'' \<or> c = ''HANDLER_NOT_FOUND'' then CLOSE_CONNECTION
      else if c = ''MODULE_IMPORT_ERROR'' \<or> c = ''HANDLER_EXECUTION_ERROR''
        then TERMINATE_CONNECTION
      else if c = ''SERVER_NOT_AVAILABLE'' then CLOSE_CONNECTION
      else if c = ''CONNECTION_LIMIT_EXCEEDED'' then CLOSE_CONNECTION
      else TERMINATE_CONNECTION)"
| "getRecoveryStrategy (PlainError m) = TERMINATE_CONNECTION"
| "getRecoveryStrategy NonError = TERMINATE_CONNECTION"

section \<open>Circuit breaker (circuit-breaker.ts)\<close>

datatype CircuitState = CLOSED | OPEN | HALF_OPEN

record CircuitBreakerConfig =
  failureThreshold :: int
  resetTimeout :: int
  monitoringWindow :: int
  successThreshold :: int

record RouteCircuitBreaker =
  routePath :: string
  config :: CircuitBreakerConfig
  state :: CircuitState
  currentFailures :: int
  totalFailures :: int
  totalSuccesses :: int
  lastFailureTime :: "int option"
  lastSuccessTime :: "int option"
  totalRequests :: int
  failureWindow :: "int list"
  consecutiveSuccessesInHalfOpen :: int

definition newRouteCircuitBreaker :: "string \<Rightarrow> CircuitBreakerConfig \<Rightarrow> RouteCircuitBreaker" where
  "newRouteCircuitBreaker rp cfg =
     \<lparr> routePath = rp, config = cfg, state = CLOSED, currentFailures = 0,
       totalFailures = 0, totalSuccesses = 0, lastFailureTime = None,
       lastSuccessTime = None, totalRequests = 0, failureWindow = [],
       consecutiveSuccessesInHalfOpen = 0 \<rparr>"

definition cleanupOldFailures :: "int \<Rightarrow> RouteCircuitBreaker \<Rightarrow> RouteCircuitBreaker" where
  "cleanupOldFailures now b =
     (let cutoff = now - monitoringWindow (config b);
          w = filter (\<lambda>time. time > cutoff) (failureWindow b)
      in b\<lparr> failureWindow := w, currentFailures := int (length w) \<rparr>)"

definition shouldAttemptReset :: "int \<Rightarrow> RouteCircuitBreaker \<Rightarrow> bool" where
  "shouldAttemptReset now b =
     (case lastFailureTime b of
        None \<Rightarrow> False
      | Some t \<Rightarrow> if t = 0 then False else now - t \<ge> resetTimeout (config b))"

definition canExecute :: "int \<Rightarrow> int \<Rightarrow> RouteCircuitBreaker \<Rightarrow> bool \<times> RouteCircuitBreaker" where
  "canExecute nowCleanup nowReset b0 =
     (let b = cleanupOldFailures nowCleanup b0
      in case state b of
           CLOSED \<Rightarrow> (True, b)
         | OPEN \<Rightarrow>
             if shouldAttemptReset nowReset b
             then (True, b\<lparr> state := HALF_OPEN, consecutiveSuccessesInHalfOpen := 0 \<rparr>)
             else (False, b)
         | HALF_OPEN \<Rightarrow> (True, b))"

definition reset :: "RouteCircuitBreaker \<Rightarrow> RouteCircuitBreaker" where
  "reset b = b\<lparr> state := CLOSED, currentFailures := 0,
               consecutiveSuccessesInHalfOpen := 0, failureWindow := [] \<rparr>"

definition recordSuccess :: "int \<Rightarrow> RouteCircuitBreaker \<Rightarrow> RouteCircuitBreaker" where
  "recordSuccess now b0 =
     (let b = b0\<lparr> totalRequests := totalRequests b0 + 1,
                  totalSuccesses := totalSuccesses b0 + 1,
                  lastSuccessTime := Some now \<rparr>
      in case state b of
           HALF_OPEN \<Rightarrow>
             (let b1 = b\<lparr> consecutiveSuccessesInHalfOpen :=
                             consecutiveSuccessesInHalfOpen b + 1 \<rparr>
              in if consecutiveSuccessesInHalfOpen b1 \<ge> successThreshold (config b1)
                 then reset b1 else b1)
         | CLOSED \<Rightarrow> b\<lparr> currentFailures := max 0 (currentFailures b - 1) \<rparr>
         | OPEN \<Rightarrow> b)"

definition openCircuit :: "RouteCircuitBreaker \<Rightarrow> RouteCircuitBreaker" where
  "openCircuit b = b\<lparr> state := OPEN \<rparr>"

definition recordFailure :: "int \<Rightarrow> int \<Rightarrow> RouteCircuitBreaker \<Rightarrow> RouteCircuitBreaker" where
  "recordFailure now nowCleanup b0 =
     (let b1 = b0\<lparr> totalRequests := totalRequests b0 + 1,
                   totalFailures := totalFailures b0 + 1,
                   currentFailures := currentFailures b0 + 1,
                   lastFailureTime := Some now,
                   failureWindow := failureWindow b0 @ [now] \<rparr>;
          b = cleanupOldFailures nowCleanup b1
      in case state b of
           CLOSED \<Rightarrow>
             if currentFailures b \<ge> failureThreshold (config b) then openCircuit b else b
         | HALF_OPEN \<Rightarrow> openCircuit b
         | OPEN \<Rightarrow> b)"






text \<open>The defaults of \<open>CircuitBreakerManager\<close>.\<close>

definition defaultConfig :: CircuitBreakerConfig where
  "defaultConfig = \<lparr> failureThreshold = 5, resetTimeout = 60000,
                     monitoringWindow = 300000, successThreshold = 3 \<rparr>"

section \<open>Rate limiter (rate-limiter.ts)\<close>

text \<open>
  What the upgrade pipeline reads of the HTTP request and of the raw socket. A header
  that is absent is \<open>None\<close>; a socket is named by \<open>socketId\<close>.
\<close>

record IncomingMessage =
  url :: "string option"
  hostHeader :: "string option"
  xForwardedFor :: "string option"
  xRealIp :: "string option"

record NetSocket =
  socketId :: nat
  remoteAddress :: "string option"

record RateLimitConfig =
  windowMs :: int
  maxRequests :: int
  keyGenerator :: "(IncomingMessage \<Rightarrow> NetSocket \<Rightarrow> string) option"

record RateLimitInfo =
  limit :: int
  current :: int
  remaining :: int
  resetTime :: int

record WebSocketRateLimiter =
  rateLimitConfig :: RateLimitConfig
  requests :: "string \<Rightarrow> int list option"

definition newWebSocketRateLimiter :: "RateLimitConfig \<Rightarrow> WebSocketRateLimiter" where
  "newWebSocketRateLimiter cfg = \<lparr> rateLimitConfig = cfg, requests = Map.empty \<rparr>"

text \<open>
  Strings are byte strings here: the UTF-8 encoding of the JavaScript string.
  \<open>String.prototype.trim\<close> strips the white space and line terminators of ECMAScript
  from both ends: the one-byte characters U+0009 to U+000D and U+0020, U+00A0 (two bytes),
  and U+1680, U+2000 to U+200A, U+2028, U+2029, U+202F, U+205F, U+3000 and U+FEFF (three
  bytes each).
\<close>

definition js_whitespace1 :: "char \<Rightarrow> bool" where
  "js_whitespace1 c =
     (c = CHR '' '' \<or> c = CHR 0x09 \<or> c = CHR 0x0A \<or> c = CHR 0x0B \<or> c = CHR 0x0C
      \<or> c = CHR 0x0D)"

definition js_whitespace2 :: "char \<Rightarrow> char \<Rightarrow> bool" where
  "js_whitespace2 c d = (c = CHR 0xC2 \<and> d = CHR 0xA0)"

definition js_whitespace3 :: "char \<Rightarrow> char \<Rightarrow> char \<Rightarrow> bool" where
  "js_whitespace3 c d e =
     ((c = CHR 0xE1 \<and> d = CHR 0x9A \<and> e = CHR 0x80)
      \<or> (c = CHR 0xE2 \<and> d = CHR 0x80
          \<and> e \<in> {CHR 0x80, CHR 0x81, CHR 0x82, CHR 0x83, CHR 0x84, CHR 0x85, CHR 0x86,
                  CHR 0x87, CHR 0x88, CHR 0x89, CHR 0x8A, CHR 0xA8, CHR 0xA9, CHR 0xAF})
      \<or> (c = CHR 0xE2 \<and> d = CHR 0x81 \<and> e = CHR 0x9F)
      \<or> (c = CHR 0xE3 \<and> d = CHR 0x80 \<and> e = CHR 0x80)
      \<or> (c = CHR 0xEF \<and> d = CHR 0xBB \<and> e = CHR 0xBF))"

fun trimStart :: "string \<Rightarrow> string" where
  "trimStart [] = []"
| "trimStart [c] = (if js_whitespace1 c then [] else [c])"
| "trimStart [c, d] =
     (if js_whitespace1 c then trimStart [d]
      else if js_whitespace2 c d then [] else [c, d])"
| "trimStart (c # d # e # rest) =
     (if js_whitespace1 c then trimStart (d # e # rest)
      else if js_whitespace2 c d then trimStart (e # rest)
      else if js_whitespace3 c d e then trimStart rest
      else c # d # e # rest)"

text \<open>The same from the end, on the reversed bytes.\<close>

fun trimReversed :: "string \<Rightarrow> string" where
  "trimReversed [] = []"
| "trimReversed [c] = (if js_whitespace1 c then [] else [c])"
| "trimReversed [c, d] =
     (if js_whitespace1 c then trimReversed [d]
      else if js_whitespace2 d c then [] else [c, d])"
| "trimReversed (c # d # e # rest) =
     (if js_whitespace1 c then trimReversed (d # e # rest)
      else if js_whitespace2 d c then trimReversed (e # rest)
      else if js_whitespace3 e d c then trimReversed rest
      else c # d # e # rest)"

definition trimEnd :: "string \<Rightarrow> string" where
  "trimEnd s = rev (trimReversed (rev s))"

definition trim :: "string \<Rightarrow> string" where
  "trim s = trimEnd (trimStart s)"

text \<open>The first piece of \<open>split(',')\<close>.\<close>

definition firstOfSplitComma :: "string \<Rightarrow> string" where
  "firstOfSplitComma s = takeWhile (\<lambda>c. c \<noteq> CHR '','') s"

text \<open>\<open>a || b\<close> on optional strings: the empty string and \<open>undefined\<close> are falsy.\<close>

definition orElse :: "string option \<Rightarrow> string option \<Rightarrow> string option" where
  "orElse a b = (case a of Some s \<Rightarrow> (if s = [] then b else Some s) | None \<Rightarrow> b)"

definition generateKey :: "RateLimitConfig \<Rightarrow> IncomingMessage \<Rightarrow> NetSocket \<Rightarrow> string" where
  "generateKey cfg req sock =
     (case keyGenerator cfg of
        Some g \<Rightarrow> g req sock
      | None \<Rightarrow>
          let forwarded = xForwardedFor req;
              ip = orElse (map_option (\<lambda>f. trim (firstOfSplitComma f)) forwarded)
                     (orElse (xRealIp req) (orElse (remoteAddress sock) (Some ''unknown'')))
          in ''ip:'' @ (case ip of Some s \<Rightarrow> s | None \<Rightarrow> ''unknown''))"

text \<open>
  \<open>isAllowed(req, socket)\<close>, with the reading of \<open>Date.now()\<close> as the parameter
  \<open>now\<close>. It returns \<open>allowed\<close>, \<open>info\<close> and the limiter with its updated map.
\<close>

definition isAllowed ::
  "IncomingMessage \<Rightarrow> NetSocket \<Rightarrow> int \<Rightarrow> WebSocketRateLimiter
     \<Rightarrow> bool \<times> RateLimitInfo \<times> WebSocketRateLimiter" where
  "isAllowed req sock now lim =
     (let cfg = rateLimitConfig lim;
          key = generateKey cfg req sock;
          windowStart = now - windowMs cfg;
          requestTimes = filter (\<lambda>time. time > windowStart)
                           (case requests lim key of Some ts \<Rightarrow> ts | None \<Rightarrow> []);
          cur = int (length requestTimes);
          allowed = (cur < maxRequests cfg);
          info = \<lparr> limit = maxRequests cfg, current = cur,
                   remaining = max 0 (maxRequests cfg - cur),
                   resetTime = (case requestTimes of
                                  t # _ \<Rightarrow> t + windowMs cfg
                                | [] \<Rightarrow> now + windowMs cfg) \<rparr>
      in if allowed
         then (True,
               info\<lparr> current := current info + 1,
                     remaining := max 0 (remaining info - 1) \<rparr>,
               lim\<lparr> requests := (requests lim)(key \<mapsto> requestTimes @ [now]) \<rparr>)
         else (False, info, lim\<lparr> requests := (requests lim)(key \<mapsto> requestTimes) \<rparr>))"

text \<open>The periodic \<open>cleanup()\<close>: every bucket is pruned, an empty one is deleted.\<close>

definition cleanupLimiter :: "int \<Rightarrow> WebSocketRateLimiter \<Rightarrow> WebSocketRateLimiter" where
  "cleanupLimiter now lim =
     (let cutoff = now - windowMs (rateLimitConfig lim)
      in lim\<lparr> requests := (\<lambda>key.
           case requests lim key of
             None \<Rightarrow> None
           | Some requestTimes \<Rightarrow>
               (let filtered = filter (\<lambda>time. time > cutoff) requestTimes
                in if filtered = [] then None else Some filtered)) \<rparr>)"

text \<open>
  A history of one limiter: checks and sweeps, each with its clock reading. The run keeps,
  beside the limiter, the log of the admitted checks as pairs (key, time).
\<close>

datatype limiter_event =
    Check IncomingMessage NetSocket int
  | Sweep int

fun event_time :: "limiter_event \<Rightarrow> int" where
  "event_time (Check req sock now) = now"
| "event_time (Sweep now) = now"

fun limiter_step ::
  "limiter_event \<Rightarrow> WebSocketRateLimiter \<times> (string \<times> int) list
     \<Rightarrow> WebSocketRateLimiter \<times> (string \<times> int) list" where
  "limiter_step (Check req sock now) (lim, adm) =
     (case isAllowed req sock now lim of
        (allowed, info, lim') \<Rightarrow>
          (lim', if allowed then adm @ [(generateKey (rateLimitConfig lim) req sock, now)]
                 else adm))"
| "limiter_step (Sweep now) (lim, adm) = (cleanupLimiter now lim, adm)"

fun run_limiter ::
  "limiter_event list \<Rightarrow> WebSocketRateLimiter \<times> (string \<times> int) list
     \<Rightarrow> WebSocketRateLimiter \<times> (string \<times> int) list" where
  "run_limiter [] st = st"
| "run_limiter (e # es) st = run_limiter es (limiter_step e st)"

text \<open>A request without proxy headers and a socket of the client 1.2.3.4, as examples.\<close>

definition exampleClient :: "nat \<Rightarrow> IncomingMessage" where
  "exampleClient n =
     \<lparr> url = Some ''/api/chat'', hostHeader = Some ''localhost:3000'', xForwardedFor = None,
       xRealIp = None \<rparr>"

definition exampleClientSocket :: "nat \<Rightarrow> NetSocket" where
  "exampleClientSocket n = \<lparr> socketId = n, remoteAddress = Some ''1.2.3.4'' \<rparr>"

text \<open>The admitted checks of key \<open>k\<close> whose time lies in the window \<open>(a, a + w]\<close>.\<close>

definition admittedInWindow :: "string \<Rightarrow> int \<Rightarrow> int \<Rightarrow> (string \<times> int) list \<Rightarrow> (string \<times> int) list" where
  "admittedInWindow k a w adm = filter (\<lambda>e. fst e = k \<and> a < snd e \<and> snd e \<le> a + w) adm"

text \<open>
  For the proofs: the bucket of a key as a list (an absent bucket is the empty list), the
  admission times of a key in the log, and the invariant that relates the two at a time
  \<open>T\<close> that no later clock reading precedes.
\<close>

definition stored :: "WebSocketRateLimiter \<Rightarrow> string \<Rightarrow> int list" where
  "stored lim k = (case requests lim k of Some ts \<Rightarrow> ts | None \<Rightarrow> [])"

definition timesOf :: "string \<Rightarrow> (string \<times> int) list \<Rightarrow> int list" where
  "timesOf k adm = map snd (filter (\<lambda>e. fst e = k) adm)"

definition limiter_inv ::
  "RateLimitConfig \<Rightarrow> int \<Rightarrow> WebSocketRateLimiter \<times> (string \<times> int) list \<Rightarrow> bool" where
  "limiter_inv cfg T st =
     (rateLimitConfig (fst st) = cfg
      \<and> (\<forall>k c. T - windowMs cfg \<le> c \<longrightarrow>
            filter (\<lambda>t. c < t) (stored (fst st) k) = filter (\<lambda>t. c < t) (timesOf k (snd st)))
      \<and> (\<forall>e \<in> set (snd st). snd e \<le> T)
      \<and> (\<forall>k a. int (length (admittedInWindow k a (windowMs cfg) (snd st))) \<le> max 0 (maxRequests cfg)))"

section \<open>Connection pool (performance.ts)\<close>

record connection_metadata =
  path :: string
  connectedAt :: int
  lastActivity :: int
  messageCount :: int
  bytesReceived :: int
  bytesSent :: int

text \<open>
  The two maps of \<open>WebSocketConnectionPool\<close> are association lists in insertion
  order, as a JavaScript \<open>Map\<close> iterates; \<open>Map.set\<close> is \<open>AList.update\<close> (it
  replaces the value of a key that is present and appends a new key) and \<open>Map.size\<close>
  is the length. A socket is named by a number. \<open>socketListeners\<close> holds the pairs
  (socket, connection id) for which \<open>setupConnectionHandlers\<close> has attached the
  message, close and error observers, \<open>healthRecorded\<close> the ids reported to the
  health monitor (\<open>healthMonitorPresent\<close> says whether \<open>getHealthMonitor\<close> returns
  one).
\<close>

record WebSocketConnectionPool =
  connections :: "(string \<times> nat) list"
  connectionMetadata :: "(string \<times> connection_metadata) list"
  maxConnections :: int
  idleTimeout :: int
  connectionRate :: int
  disconnectionRate :: int
  socketListeners :: "(nat \<times> string) list"
  healthMonitorPresent :: bool
  healthRecorded :: "string list"

definition poolSize :: "WebSocketConnectionPool \<Rightarrow> int" where
  "poolSize p = int (length (connections p))"

definition newConnectionPool :: "int \<Rightarrow> int \<Rightarrow> bool \<Rightarrow> WebSocketConnectionPool" where
  "newConnectionPool maxConns idle hm =
     \<lparr> connections = [], connectionMetadata = [], maxConnections = maxConns,
       idleTimeout = idle, connectionRate = 0, disconnectionRate = 0,
       socketListeners = [], healthMonitorPresent = hm, healthRecorded = [] \<rparr>"

text \<open>
  \<open>addConnection id ws path\<close>; the two readings of \<open>Date.now()\<close> for the metadata
  are the parameters \<open>now1\<close> and \<open>now2\<close>.
\<close>

definition addConnection ::
  "string \<Rightarrow> nat \<Rightarrow> string \<Rightarrow> int \<Rightarrow> int \<Rightarrow> WebSocketConnectionPool
     \<Rightarrow> bool \<times> WebSocketConnectionPool" where
  "addConnection cid ws pth now1 now2 p =
     (if poolSize p \<ge> maxConnections p then (False, p)
      else
        let metadata = \<lparr> path = pth, connectedAt = now1, lastActivity = now2,
                          messageCount = 0, bytesReceived = 0, bytesSent = 0 \<rparr>
        in (True,
            p\<lparr> connections := AList.update cid ws (connections p),
               connectionMetadata := AList.update cid metadata (connectionMetadata p),
               socketListeners := socketListeners p @ [(ws, cid)],
               connectionRate := connectionRate p + 1,
               healthRecorded :=
                 (if healthMonitorPresent p then healthRecorded p @ [cid]
                  else healthRecorded p) \<rparr>))"

text \<open>\<open>removeConnection id\<close>: only when both maps hold the id.\<close>

definition removeConnection :: "string \<Rightarrow> WebSocketConnectionPool \<Rightarrow> WebSocketConnectionPool" where
  "removeConnection cid p =
     (case (map_of (connections p) cid, map_of (connectionMetadata p) cid) of
        (Some ws, Some metadata) \<Rightarrow>
          p\<lparr> connections := AList.delete cid (connections p),
             connectionMetadata := AList.delete cid (connectionMetadata p),
             disconnectionRate := disconnectionRate p + 1 \<rparr>
      | _ \<Rightarrow> p)"

section \<open>Connection tracker (connection-tracker.ts)\<close>

text \<open>
  The three collections of \<open>ConnectionTracker\<close>. The weak set of sockets is a set of
  socket ids: an entry leaves it only through \<open>markSocketInactive\<close>.
\<close>

record ConnectionTracker =
  activeUpgrades :: "nat set"
  recentUpgrades :: "string \<Rightarrow> int option"
  cleanedUpConnections :: "string set"

definition newConnectionTracker :: ConnectionTracker where
  "newConnectionTracker =
     \<lparr> activeUpgrades = {}, recentUpgrades = Map.empty, cleanedUpConnections = {} \<rparr>"



definition isSocketActive :: "NetSocket \<Rightarrow> ConnectionTracker \<Rightarrow> bool" where
  "isSocketActive sock tr = (socketId sock \<in> activeUpgrades tr)"

definition markSocketActive :: "NetSocket \<Rightarrow> ConnectionTracker \<Rightarrow> ConnectionTracker" where
  "markSocketActive sock tr = tr\<lparr> activeUpgrades := insert (socketId sock) (activeUpgrades tr) \<rparr>"

definition markSocketInactive :: "NetSocket \<Rightarrow> ConnectionTracker \<Rightarrow> ConnectionTracker" where
  "markSocketInactive sock tr = tr\<lparr> activeUpgrades := activeUpgrades tr - {socketId sock} \<rparr>"

definition isConnectionCleanedUp :: "string \<Rightarrow> ConnectionTracker \<Rightarrow> bool" where
  "isConnectionCleanedUp connectionId tr = (connectionId \<in> cleanedUpConnections tr)"

definition markConnectionCleanedUp :: "string \<Rightarrow> ConnectionTracker \<Rightarrow> ConnectionTracker" where
  "markConnectionCleanedUp connectionId tr =
     tr\<lparr> cleanedUpConnections := insert connectionId (cleanedUpConnections tr) \<rparr>"

text \<open>The timer that \<open>markConnectionCleanedUp\<close> arms, firing after 30 seconds.\<close>

definition cleanedUpExpiry :: "string \<Rightarrow> ConnectionTracker \<Rightarrow> ConnectionTracker" where
  "cleanedUpExpiry connectionId tr =
     tr\<lparr> cleanedUpConnections := cleanedUpConnections tr - {connectionId} \<rparr>"









section \<open>Route resolution (route-handler.ts, route-resolver.ts)\<close>

text \<open>
  A JavaScript value as far as \<open>typeof v === 'function'\<close> and \<open>??\<close> tell it apart:
  \<open>undefined\<close> (or \<open>null\<close>), a function (named by a number), or something else.
\<close>

datatype js_value = Undefined | NotAFunction | Function nat

text \<open>
  A route module: its \<open>default\<close> export and the three places where the \<open>SOCKET\<close>
  export is looked for. A promise carries the module it resolves to (\<open>None\<close> when
  it rejects or resolves to nothing).
\<close>

datatype route_module =
  RouteModule default_export js_value js_value js_value
and default_export =
    NoDefault
  | DefaultPromise "route_module option"
  | DefaultObject route_module
  | DefaultOther

fun defaultOf :: "route_module \<Rightarrow> default_export" where
  "defaultOf (RouteModule d u s h) = d"

text \<open>\<open>m.routeModule?.userland?.SOCKET ?? m.SOCKET ?? m.handlers?.SOCKET\<close>\<close>

fun socketExport :: "route_module \<Rightarrow> js_value" where
  "socketExport (RouteModule d u s h) =
     (if u \<noteq> Undefined then u else if s \<noteq> Undefined then s else h)"

fun asFunction :: "js_value \<Rightarrow> nat option" where
  "asFunction (Function f) = Some f"
| "asFunction v = None"

definition getSocketHandler :: "route_module option \<Rightarrow> nat option" where
  "getSocketHandler routeModule =
     (case routeModule of
        None \<Rightarrow> None
      | Some rm \<Rightarrow>
          let resolvedModule =
                (case defaultOf rm of
                   DefaultPromise r \<Rightarrow> r
                 | DefaultObject m \<Rightarrow> Some m
                 | _ \<Rightarrow> Some rm)
          in case resolvedModule of
               None \<Rightarrow> None
             | Some res \<Rightarrow>
                 (case asFunction (socketExport res) of
                    Some f \<Rightarrow> Some f
                  | None \<Rightarrow>
                      (case defaultOf rm of
                         DefaultPromise r \<Rightarrow> asFunction (socketExport rm)
                       | DefaultObject m \<Rightarrow> asFunction (socketExport rm)
                       | _ \<Rightarrow> None)))"

text \<open>
  What the pipeline takes from outside this repository's source: the per-route rate
  limit of the configuration, the URL parser (\<open>None\<close> when \<open>new URL\<close> throws), the
  app-router table in the order of \<open>Object.entries\<close> (pattern, page key), the
  framework's \<open>isDynamicRoute\<close> and route matcher, the server's \<open>getPagePath\<close>,
  \<open>require\<close> after the ESM interop (\<open>None\<close> when it throws), and the behaviour of
  the user's \<open>SOCKET\<close> functions: \<open>runSocketHandler f n\<close> is what the invocation
  of function \<open>f\<close> does when \<open>n\<close> invocations were made before it.
\<close>

datatype factory_outcome = FactoryThrows | FactoryReturns js_value

record upgrade_env =
  routeRateLimit :: "string \<Rightarrow> (int \<times> int) option"
  parsePathname :: "string \<Rightarrow> string \<Rightarrow> string option"
  appPathRoutes :: "(string \<times> string) list option"
  isDynamicRoute :: "string \<Rightarrow> bool"
  routeMatcher :: "string \<Rightarrow> string \<Rightarrow> (string \<times> string) list option"
  resolvePagePath :: "string \<Rightarrow> string option"
  requireModule :: "string \<Rightarrow> route_module option"
  runSocketHandler :: "nat \<Rightarrow> nat \<Rightarrow> factory_outcome"

definition endsWith :: "string \<Rightarrow> string \<Rightarrow> bool" where
  "endsWith s suf = (take (length suf) (rev s) = rev suf)"

record route_info =
  filePath :: string
  routeParams :: "(string \<times> string) list"

fun firstStatic :: "(string \<times> string) list \<Rightarrow> string \<Rightarrow> route_info option" where
  "firstStatic [] requestPath = None"
| "firstStatic ((pagePattern, pageKey) # rest) requestPath =
     (if pagePattern = requestPath then Some \<lparr> filePath = pageKey, routeParams = [] \<rparr>
      else firstStatic rest requestPath)"

fun firstDynamic ::
  "(string \<Rightarrow> string \<Rightarrow> (string \<times> string) list option) \<Rightarrow> (string \<times> string) list \<Rightarrow> string
     \<Rightarrow> route_info option" where
  "firstDynamic matcher [] requestPath = None"
| "firstDynamic matcher ((pagePattern, pageKey) # rest) requestPath =
     (case matcher pagePattern requestPath of
        Some params \<Rightarrow> Some \<lparr> filePath = pageKey, routeParams = params \<rparr>
      | None \<Rightarrow> firstDynamic matcher rest requestPath)"

definition resolvePathToRoute :: "upgrade_env \<Rightarrow> string \<Rightarrow> route_info option" where
  "resolvePathToRoute env requestPath =
     (case appPathRoutes env of
        None \<Rightarrow> None
      | Some routes \<Rightarrow>
          let apiRouteEntries = filter (\<lambda>entry. snd entry \<noteq> [] \<and> endsWith (snd entry) ''/route'') routes
          in if apiRouteEntries = [] then None
             else
               let staticEntries = filter (\<lambda>entry. \<not> isDynamicRoute env (fst entry)) apiRouteEntries;
                   dynamicEntries = filter (\<lambda>entry. isDynamicRoute env (fst entry)) apiRouteEntries
               in case firstStatic staticEntries requestPath of
                    Some r \<Rightarrow> Some r
                  | None \<Rightarrow> firstDynamic (routeMatcher env) dynamicEntries requestPath)"

definition importRouteModule :: "upgrade_env \<Rightarrow> string \<Rightarrow> route_module option" where
  "importRouteModule env pageKey =
     (case resolvePagePath env pageKey of
        None \<Rightarrow> None
      | Some serverModulePath \<Rightarrow>
          if serverModulePath = [] then None else requireModule env serverModulePath)"

record RouteResolutionResult =
  resolvedFilePath :: string
  resolvedRouteParams :: "(string \<times> string) list"
  handler :: nat

text \<open>
  \<open>resolveWebSocketRoute\<close>, declared to return a result or \<open>null\<close>: each failed
  step throws its error, and the \<open>catch\<close> throws it again (any other exception it
  would wrap as a ModuleImport error and throw as well). \<open>Inl\<close> is the rejection of the
  returned promise, \<open>Inr None\<close> would be the result \<open>null\<close>.
\<close>

definition resolveWebSocketRoute ::
  "upgrade_env \<Rightarrow> string \<Rightarrow> js_error + RouteResolutionResult option" where
  "resolveWebSocketRoute env pathname =
     (case resolvePathToRoute env pathname of
        None \<Rightarrow> Inl (RouteNotFoundError pathname)
      | Some routeInfo \<Rightarrow>
          (case importRouteModule env (filePath routeInfo) of
             None \<Rightarrow> Inl (ModuleImportError (filePath routeInfo))
           | Some routeModule \<Rightarrow>
               (case getSocketHandler (Some routeModule) of
                  None \<Rightarrow> Inl (HandlerNotFoundError pathname)
                | Some h \<Rightarrow>
                    Inr (Some \<lparr> resolvedFilePath = filePath routeInfo,
                                resolvedRouteParams = routeParams routeInfo,
                                handler = h \<rparr>))))"


section \<open>Upgrade pipeline (route-handler.ts, rate-limiter.ts, setup.ts)\<close>

text \<open>
  The state that the upgrade handler reads and writes: the tracker, the cache of
  connection handlers per route path, the rate limiters per route path, and what happened
  to the sockets: \<open>destroyedSockets\<close> holds the raw sockets on which \<open>destroy()\<close>
  was called, \<open>delegatedUpgrades\<close> the calls of \<open>wsServer.handleUpgrade\<close> (socket,
  path, connection handler), which completes the handshake, and \<open>factoryLog\<close> every
  invocation of a \<open>SOCKET\<close> function (route path, function, what it did).
\<close>

record runtime_state =
  tracker :: ConnectionTracker
  connectionHandlerCache :: "string \<Rightarrow> nat option"
  limiters :: "string \<Rightarrow> WebSocketRateLimiter option"
  destroyedSockets :: "nat set"
  delegatedUpgrades :: "(nat \<times> string \<times> nat) list"
  factoryLog :: "(string \<times> nat \<times> factory_outcome) list"

definition initialRuntime :: runtime_state where
  "initialRuntime =
     \<lparr> tracker = newConnectionTracker, connectionHandlerCache = Map.empty,
       limiters = Map.empty, destroyedSockets = {}, delegatedUpgrades = [],
       factoryLog = [] \<rparr>"

definition invocationsOf :: "nat \<Rightarrow> runtime_state \<Rightarrow> nat" where
  "invocationsOf f s = length (filter (\<lambda>e. fst (snd e) = f) (factoryLog s))"

text \<open>
  \<open>getOrInitializeConnectionHandler(socketHandler, wsServer, routePath, routeConfig)\<close>;
  the \<open>await\<close> of the user's function is one step here.
\<close>

definition getOrInitializeConnectionHandler ::
  "upgrade_env \<Rightarrow> nat \<Rightarrow> string \<Rightarrow> runtime_state \<Rightarrow> nat option \<times> runtime_state" where
  "getOrInitializeConnectionHandler env socketHandler routePth s =
     (case connectionHandlerCache s routePth of
        Some cached \<Rightarrow> (Some cached, s)
      | None \<Rightarrow>
          let outcome = runSocketHandler env socketHandler (invocationsOf socketHandler s);
              s1 = s\<lparr> factoryLog := factoryLog s @ [(routePth, socketHandler, outcome)] \<rparr>
          in case outcome of
               FactoryReturns (Function connectionHandler) \<Rightarrow>
                 (Some connectionHandler,
                  s1\<lparr> connectionHandlerCache :=
                         (connectionHandlerCache s1)(routePth \<mapsto> connectionHandler) \<rparr>)
             | _ \<Rightarrow> (None, s1))"

definition clearConnectionHandlerCache :: "runtime_state \<Rightarrow> runtime_state" where
  "clearConnectionHandlerCache s = s\<lparr> connectionHandlerCache := Map.empty \<rparr>"

text \<open>\<open>RouteRateLimiterManager.checkRateLimit\<close>, for a route that has a rule.\<close>

definition checkRateLimit ::
  "string \<Rightarrow> int \<times> int \<Rightarrow> IncomingMessage \<Rightarrow> NetSocket \<Rightarrow> int \<Rightarrow> runtime_state
     \<Rightarrow> bool \<times> runtime_state" where
  "checkRateLimit routePth rule req sock now s =
     (let limiter =
            (case limiters s routePth of
               Some l \<Rightarrow> l
             | None \<Rightarrow> newWebSocketRateLimiter
                 \<lparr> windowMs = fst rule, maxRequests = snd rule, keyGenerator = None \<rparr>)
      in case isAllowed req sock now limiter of
           (allowed, info, limiter') \<Rightarrow>
             (allowed, s\<lparr> limiters := (limiters s)(routePth \<mapsto> limiter') \<rparr>))"

definition startsWith :: "string \<Rightarrow> string \<Rightarrow> bool" where
  "startsWith s pre = (take (length pre) s = pre)"

datatype upgrade_outcome = Returned | Rejected js_error

definition destroyAndRelease :: "NetSocket \<Rightarrow> runtime_state \<Rightarrow> runtime_state" where
  "destroyAndRelease sock s =
     s\<lparr> destroyedSockets := insert (socketId sock) (destroyedSockets s),
        tracker := markSocketInactive sock (tracker s) \<rparr>"

text \<open>
  The steps of \<open>handleUpgrade\<close> from the route resolution on. An exception of the
  awaited \<open>resolveWebSocketRoute\<close> is not caught anywhere in \<open>handleUpgrade\<close>: the
  handler's promise rejects with it and the statements after the \<open>await\<close> do not run.
\<close>

definition resolveAndDelegate ::
  "upgrade_env \<Rightarrow> NetSocket \<Rightarrow> string \<Rightarrow> runtime_state \<Rightarrow> upgrade_outcome \<times> runtime_state" where
  "resolveAndDelegate env sock pathname s =
     (case resolveWebSocketRoute env pathname of
        Inl err \<Rightarrow> (Rejected err, s)
      | Inr None \<Rightarrow> (Returned, destroyAndRelease sock s)
      | Inr (Some routeResolution) \<Rightarrow>
          (case getOrInitializeConnectionHandler env (handler routeResolution) pathname s of
             (None, s') \<Rightarrow> (Returned, destroyAndRelease sock s')
           | (Some connectionHandler, s') \<Rightarrow>
               (Returned,
                s'\<lparr> delegatedUpgrades :=
                       delegatedUpgrades s' @ [(socketId sock, pathname, connectionHandler)] \<rparr>)))"

text \<open>
  \<open>handleUpgrade(request, socket, head)\<close>, the listener of the host server's
  \<open>upgrade\<close> event; \<open>now\<close> is the clock reading of the rate limiter. The call of
  \<open>tracker.isRapidDuplicate\<close> is commented out in the source and so is not part of it.
\<close>

definition handleUpgrade ::
  "upgrade_env \<Rightarrow> IncomingMessage \<Rightarrow> NetSocket \<Rightarrow> int \<Rightarrow> runtime_state
     \<Rightarrow> upgrade_outcome \<times> runtime_state" where
  "handleUpgrade env request sock now s =
     (let requestUrl = (case url request of Some u \<Rightarrow> (if u = [] then ''/'' else u) | None \<Rightarrow> ''/'')
      in if isSocketActive sock (tracker s) then (Returned, s)
         else
           let s1 = s\<lparr> tracker := markSocketActive sock (tracker s) \<rparr>;
               host = (case hostHeader request of
                         Some h \<Rightarrow> (if h = [] then ''localhost'' else h)
                       | None \<Rightarrow> ''localhost'')
           in case parsePathname env requestUrl host of
                None \<Rightarrow> (Rejected (PlainError ''Invalid URL''), s1)
              | Some pathname \<Rightarrow>
                  if startsWith pathname ''/_next/''
                  then (Returned, s1\<lparr> tracker := markSocketInactive sock (tracker s1) \<rparr>)
                  else
                    (case routeRateLimit env pathname of
                       Some rule \<Rightarrow>
                         (case checkRateLimit pathname rule request sock now s1 of
                            (allowed, s2) \<Rightarrow>
                              if \<not> allowed then (Returned, destroyAndRelease sock s2)
                              else resolveAndDelegate env sock pathname s2)
                     | None \<Rightarrow> resolveAndDelegate env sock pathname s1))"

text \<open>
  Upgrades of which none arrives while another is suspended: each handler runs to its end
  before the next upgrade event.
\<close>

fun run_upgrades ::
  "upgrade_env \<Rightarrow> (IncomingMessage \<times> NetSocket \<times> int) list \<Rightarrow> runtime_state \<Rightarrow> runtime_state" where
  "run_upgrades env [] s = s"
| "run_upgrades env ((request, sock, now) # rest) s =
     run_upgrades env rest (snd (handleUpgrade env request sock now s))"

text \<open>
  \<open>handleUpgrade\<close> is an async function: it suspends at
  \<open>await resolveWebSocketRoute(...)\<close> and, inside
  \<open>getOrInitializeConnectionHandler\<close>, at \<open>await socketHandler(wsServer)\<close>, between
  the lookup in the cache and the write to it; other upgrade events are handled meanwhile.
  A suspended handler is a task: it waits for the route resolution, or for the result of
  the factory that it has invoked (the task keeps what the invocation will deliver).
\<close>

datatype upgrade_task =
    AwaitingResolution NetSocket string
  | AwaitingFactory NetSocket string factory_outcome

datatype upgrade_progress = Finished upgrade_outcome | Suspended upgrade_task

text \<open>From the upgrade event to the first \<open>await\<close>.\<close>

definition beginUpgrade ::
  "upgrade_env \<Rightarrow> IncomingMessage \<Rightarrow> NetSocket \<Rightarrow> int \<Rightarrow> runtime_state
     \<Rightarrow> upgrade_progress \<times> runtime_state" where
  "beginUpgrade env request sock now s =
     (let requestUrl = (case url request of Some u \<Rightarrow> (if u = [] then ''/'' else u) | None \<Rightarrow> ''/'')
      in if isSocketActive sock (tracker s) then (Finished Returned, s)
         else
           let s1 = s\<lparr> tracker := markSocketActive sock (tracker s) \<rparr>;
               host = (case hostHeader request of
                         Some h \<Rightarrow> (if h = [] then ''localhost'' else h)
                       | None \<Rightarrow> ''localhost'')
           in case parsePathname env requestUrl host of
                None \<Rightarrow> (Finished (Rejected (PlainError ''Invalid URL'')), s1)
              | Some pathname \<Rightarrow>
                  if startsWith pathname ''/_next/''
                  then (Finished Returned,
                        s1\<lparr> tracker := markSocketInactive sock (tracker s1) \<rparr>)
                  else
                    (case routeRateLimit env pathname of
                       Some rule \<Rightarrow>
                         (case checkRateLimit pathname rule request sock now s1 of
                            (allowed, s2) \<Rightarrow>
                              if \<not> allowed then (Finished Returned, destroyAndRelease sock s2)
                              else (Suspended (AwaitingResolution sock pathname), s2))
                     | None \<Rightarrow> (Suspended (AwaitingResolution sock pathname), s1)))"

text \<open>
  From the end of the route resolution to the next \<open>await\<close>: with a cached handler
  to the end, otherwise to the invocation of the factory.
\<close>

definition afterResolution ::
  "upgrade_env \<Rightarrow> NetSocket \<Rightarrow> string \<Rightarrow> runtime_state \<Rightarrow> upgrade_progress \<times> runtime_state" where
  "afterResolution env sock pathname s =
     (case resolveWebSocketRoute env pathname of
        Inl err \<Rightarrow> (Finished (Rejected err), s)
      | Inr None \<Rightarrow> (Finished Returned, destroyAndRelease sock s)
      | Inr (Some routeResolution) \<Rightarrow>
          (case connectionHandlerCache s pathname of
             Some cached \<Rightarrow>
               (Finished Returned,
                s\<lparr> delegatedUpgrades :=
                      delegatedUpgrades s @ [(socketId sock, pathname, cached)] \<rparr>)
           | None \<Rightarrow>
               let socketHandler = handler routeResolution;
                   outcome = runSocketHandler env socketHandler (invocationsOf socketHandler s)
               in (Suspended (AwaitingFactory sock pathname outcome),
                   s\<lparr> factoryLog := factoryLog s @ [(pathname, socketHandler, outcome)] \<rparr>)))"

text \<open>From the result of the factory to the end.\<close>

definition afterFactory ::
  "NetSocket \<Rightarrow> string \<Rightarrow> factory_outcome \<Rightarrow> runtime_state \<Rightarrow> upgrade_progress \<times> runtime_state" where
  "afterFactory sock pathname outcome s =
     (case outcome of
        FactoryReturns (Function connectionHandler) \<Rightarrow>
          (Finished Returned,
           s\<lparr> connectionHandlerCache :=
                 (connectionHandlerCache s)(pathname \<mapsto> connectionHandler),
               delegatedUpgrades :=
                 delegatedUpgrades s @ [(socketId sock, pathname, connectionHandler)] \<rparr>)
      | _ \<Rightarrow> (Finished Returned, destroyAndRelease sock s))"

definition resumeTask :: "upgrade_env \<Rightarrow> upgrade_task \<Rightarrow> runtime_state \<Rightarrow> upgrade_progress \<times> runtime_state" where
  "resumeTask env task s =
     (case task of
        AwaitingResolution sock pathname \<Rightarrow> afterResolution env sock pathname s
      | AwaitingFactory sock pathname outcome \<Rightarrow> afterFactory sock pathname outcome s)"

text \<open>
  The event loop: the shared state, the suspended handlers by the number of their upgrade
  event, and the count of upgrade events so far. An event is the arrival of an upgrade or
  the resumption of a suspended handler; a schedule is any list of events.
\<close>

record event_loop =
  shared :: runtime_state
  suspendedTasks :: "nat \<Rightarrow> upgrade_task option"
  arrivals :: nat

definition idleLoop :: "runtime_state \<Rightarrow> event_loop" where
  "idleLoop s = \<lparr> shared = s, suspendedTasks = Map.empty, arrivals = 0 \<rparr>"

datatype loop_event =
    UpgradeArrives IncomingMessage NetSocket int
  | Resume nat

definition settle :: "nat \<Rightarrow> upgrade_progress \<times> runtime_state \<Rightarrow> event_loop \<Rightarrow> event_loop" where
  "settle taskId result lp =
     (case result of
        (Finished outcome, s') \<Rightarrow>
          lp\<lparr> shared := s', suspendedTasks := (suspendedTasks lp)(taskId := None) \<rparr>
      | (Suspended task, s') \<Rightarrow>
          lp\<lparr> shared := s', suspendedTasks := (suspendedTasks lp)(taskId \<mapsto> task) \<rparr>)"

fun loop_step :: "upgrade_env \<Rightarrow> loop_event \<Rightarrow> event_loop \<Rightarrow> event_loop" where
  "loop_step env (UpgradeArrives request sock now) lp =
     settle (arrivals lp) (beginUpgrade env request sock now (shared lp))
       (lp\<lparr> arrivals := arrivals lp + 1 \<rparr>)"
| "loop_step env (Resume taskId) lp =
     (case suspendedTasks lp taskId of
        None \<Rightarrow> lp
      | Some task \<Rightarrow> settle taskId (resumeTask env task (shared lp)) lp)"

fun run_schedule :: "upgrade_env \<Rightarrow> loop_event list \<Rightarrow> event_loop \<Rightarrow> event_loop" where
  "run_schedule env [] lp = lp"
| "run_schedule env (e # es) lp = run_schedule env es (loop_step env e lp)"

text \<open>The invocations of \<open>SOCKET\<close> functions logged for a route path, in order.\<close>

definition invocationsFor :: "string \<Rightarrow> runtime_state \<Rightarrow> (string \<times> nat \<times> factory_outcome) list" where
  "invocationsFor routePth s = filter (\<lambda>e. fst e = routePth) (factoryLog s)"

fun returnedFunction :: "string \<times> nat \<times> factory_outcome \<Rightarrow> bool" where
  "returnedFunction (r, f, FactoryReturns (Function h)) = True"
| "returnedFunction (r, f, outcome) = False"

text \<open>
  An example environment: one static route \<open>/api/echo\<close> whose module exports
  \<open>SOCKET\<close> directly as function 7, which returns the connection handler 9; a route
  \<open>/api/bad\<close> whose \<open>SOCKET\<close> function 8 always throws; no rate limits.
\<close>

definition exampleEnv :: upgrade_env where
  "exampleEnv =
     \<lparr> routeRateLimit = (\<lambda>p. None),
       parsePathname = (\<lambda>u h. Some u),
       appPathRoutes = Some [(''/api/echo'', ''/api/echo/route''), (''/api/bad'', ''/api/bad/route'')],
       isDynamicRoute = (\<lambda>p. False),
       routeMatcher = (\<lambda>p q. None),
       resolvePagePath = (\<lambda>k. Some k),
       requireModule = (\<lambda>p. if p = ''/api/bad/route''
                                 then Some (RouteModule NoDefault Undefined (Function 8) Undefined)
                                 else Some (RouteModule NoDefault Undefined (Function 7) Undefined)),
       runSocketHandler = (\<lambda>f n. if f = 8 then FactoryThrows else FactoryReturns (Function 9)) \<rparr>"

text \<open>
  A second example: one parameterised route \<open>/api/room/[id]\<close>, whose \<open>SOCKET\<close>
  function 7 returns the connection handler 9.
\<close>

definition exampleRoomEnv :: upgrade_env where
  "exampleRoomEnv =
     \<lparr> routeRateLimit = (\<lambda>p. None),
       parsePathname = (\<lambda>u h. Some u),
       appPathRoutes = Some [(''/api/room/[id]'', ''/api/room/[id]/route'')],
       isDynamicRoute = (\<lambda>p. p = ''/api/room/[id]''),
       routeMatcher = (\<lambda>p q. if p = ''/api/room/[id]'' \<and> take 10 q = ''/api/room/''
                                    \<and> drop 10 q \<noteq> [] \<and> CHR ''/'' \<notin> set (drop 10 q)
                                 then Some [(''id'', drop 10 q)] else None),
       resolvePagePath = (\<lambda>k. Some k),
       requireModule = (\<lambda>p. Some (RouteModule NoDefault Undefined (Function 7) Undefined)),
       runSocketHandler = (\<lambda>f n. FactoryReturns (Function 9)) \<rparr>"

definition exampleRequest :: "string \<Rightarrow> IncomingMessage" where
  "exampleRequest u =
     \<lparr> url = Some u, hostHeader = Some ''localhost:3000'', xForwardedFor = None, xRealIp = None \<rparr>"

definition exampleSocket :: "nat \<Rightarrow> NetSocket" where
  "exampleSocket n = \<lparr> socketId = n, remoteAddress = Some ''1.2.3.4'' \<rparr>"

text \<open>
  For the proofs: in the log of a route path, every invocation that did return a function
  is the last one, and it is the one that filled the cache.
\<close>

definition cache_inv :: "runtime_state \<Rightarrow> bool" where
  "cache_inv s =
     (\<forall>r. list_all (\<lambda>e. \<not> returnedFunction e)
            (if connectionHandlerCache s r = None then invocationsFor r s
             else butlast (invocationsFor r s)))"


section \<open>Connection lifecycle (setup.ts, the callback of the completed handshake)\<close>

text \<open>
  What the user's connection handler does when it is called: it throws, or it returns a
  value that is no function (\<open>None\<close>), or it returns a cleanup function; of that
  function the model keeps whether it throws when it is called.
\<close>

datatype handler_outcome = HandlerThrows | HandlerReturns "bool option"

text \<open>
  The state around the live connections. \<open>cleanupObserver\<close> maps a connection id to
  the listener that \<open>clientWebSocket.once('close', ...)\<close> armed for it, with the raw
  socket and the cleanup value it closes over; \<open>heartbeatObserver\<close> holds the ids whose
  second \<open>once('close')\<close> listener is armed, \<open>heartbeatTimers\<close> the ids whose
  interval runs, \<open>errorObserver\<close> the ids whose \<open>on('error')\<close> listener is attached. \<open>cleanupRuns\<close> counts the calls of the user's cleanup function per
  connection id, \<open>errorsRecorded\<close> the calls of \<open>healthMonitor.recordError\<close>,
  \<open>closeFrames\<close> the graceful closes (client, code, reason).
\<close>

record lifecycle_state =
  lcTracker :: ConnectionTracker
  lcPool :: WebSocketConnectionPool
  cleanupObserver :: "string \<Rightarrow> (NetSocket \<times> bool option) option"
  heartbeatObserver :: "string set"
  heartbeatTimers :: "string set"
  errorObserver :: "string set"
  cleanupRuns :: "string \<Rightarrow> nat"
  errorsRecorded :: nat
  closeFrames :: "(nat \<times> int \<times> string) list"
  terminatedClients :: "nat set"

definition initialLifecycle :: "WebSocketConnectionPool \<Rightarrow> lifecycle_state" where
  "initialLifecycle pool =
     \<lparr> lcTracker = newConnectionTracker, lcPool = pool, cleanupObserver = Map.empty,
       heartbeatObserver = {}, heartbeatTimers = {}, errorObserver = {},
       cleanupRuns = (\<lambda>c. 0),
       errorsRecorded = 0, closeFrames = [], terminatedClients = {} \<rparr>"

text \<open>\<open>handleConnectionError\<close> of setup.ts: report to the health monitor if there is one.\<close>

definition recordConnectionError :: "lifecycle_state \<Rightarrow> lifecycle_state" where
  "recordConnectionError s =
     (if healthMonitorPresent (lcPool s) then s\<lparr> errorsRecorded := errorsRecorded s + 1 \<rparr> else s)"

text \<open>
  The callback that \<open>wsServer.handleUpgrade\<close> calls with the client socket:
  \<open>memoryAcceptable\<close> is the answer of \<open>memoryManager.isMemoryUsageAcceptable()\<close>,
  \<open>outcome\<close> what the connection handler does.
\<close>

definition onUpgradeReady ::
  "string \<Rightarrow> nat \<Rightarrow> NetSocket \<Rightarrow> string \<Rightarrow> bool \<Rightarrow> handler_outcome \<Rightarrow> int \<Rightarrow> int
     \<Rightarrow> lifecycle_state \<Rightarrow> lifecycle_state" where
  "onUpgradeReady connectionId clientWebSocket sock pathname memoryAcceptable outcome now1 now2 s =
     (if \<not> memoryAcceptable
      then s\<lparr> closeFrames := closeFrames s @ [(clientWebSocket, 1013, ''Server overloaded'')] \<rparr>
      else
        case addConnection connectionId clientWebSocket pathname now1 now2 (lcPool s) of
          (False, pool') \<Rightarrow>
            s\<lparr> closeFrames := closeFrames s @ [(clientWebSocket, 1013, ''Server at capacity'')] \<rparr>
        | (True, pool') \<Rightarrow>
            (case outcome of
               HandlerThrows \<Rightarrow>
                 (recordConnectionError (s\<lparr> lcPool := pool' \<rparr>))
                   \<lparr> terminatedClients := insert clientWebSocket (terminatedClients s) \<rparr>
             | HandlerReturns cleanupFunction \<Rightarrow>
                 s\<lparr> lcPool := pool',
                    cleanupObserver := (cleanupObserver s)(connectionId \<mapsto> (sock, cleanupFunction)),
                    heartbeatObserver := insert connectionId (heartbeatObserver s),
                    heartbeatTimers := insert connectionId (heartbeatTimers s),
                    errorObserver := insert connectionId (errorObserver s) \<rparr>))"

text \<open>The listener armed by the first \<open>once('close')\<close>, run for connection \<open>connectionId\<close>.\<close>

definition runCleanupObserver ::
  "string \<Rightarrow> NetSocket \<Rightarrow> bool option \<Rightarrow> lifecycle_state \<Rightarrow> lifecycle_state" where
  "runCleanupObserver connectionId sock cleanupFunction s =
     (if isConnectionCleanedUp connectionId (lcTracker s) then s
      else
        let s1 = s\<lparr> lcTracker :=
                     markSocketInactive sock (markConnectionCleanedUp connectionId (lcTracker s)) \<rparr>
        in case cleanupFunction of
             None \<Rightarrow> s1
           | Some throws \<Rightarrow>
               let s2 = s1\<lparr> cleanupRuns :=
                              (cleanupRuns s1)(connectionId := cleanupRuns s1 connectionId + 1) \<rparr>
               in if throws then recordConnectionError s2 else s2)"

text \<open>
  The \<open>close\<close> event of the client socket of a connection: the listeners run in the
  order of their registration, the pool's first, and a \<open>once\<close> listener is removed
  before it runs.
\<close>

definition clientClose :: "string \<Rightarrow> lifecycle_state \<Rightarrow> lifecycle_state" where
  "clientClose connectionId s =
     (let s1 = (if connectionId \<in> snd ` set (socketListeners (lcPool s))
                then s\<lparr> lcPool := removeConnection connectionId (lcPool s) \<rparr> else s);
          s2 = (case cleanupObserver s1 connectionId of
                  None \<Rightarrow> s1
                | Some (sock, cleanupFunction) \<Rightarrow>
                    runCleanupObserver connectionId sock cleanupFunction
                      (s1\<lparr> cleanupObserver := (cleanupObserver s1)(connectionId := None) \<rparr>))
      in if connectionId \<in> heartbeatObserver s2
         then
           let s3 = s2\<lparr> heartbeatObserver := heartbeatObserver s2 - {connectionId} \<rparr>
           in if \<not> isConnectionCleanedUp connectionId (lcTracker s3)
              then s3\<lparr> heartbeatTimers := heartbeatTimers s3 - {connectionId} \<rparr>
              else s3
         else s2)"

text \<open>The \<open>error\<close> event: the pool removes the connection, setup.ts records the error.\<close>

definition clientError :: "string \<Rightarrow> lifecycle_state \<Rightarrow> lifecycle_state" where
  "clientError connectionId s =
     (let s1 = (if connectionId \<in> snd ` set (socketListeners (lcPool s))
                then s\<lparr> lcPool := removeConnection connectionId (lcPool s) \<rparr> else s)
      in if connectionId \<in> errorObserver s1 then recordConnectionError s1 else s1)"

datatype lifecycle_event =
    Ready string nat NetSocket string bool handler_outcome int int
  | ClientClose string
  | ClientError string
  | CleanedUpExpiry string

fun lifecycle_step :: "lifecycle_event \<Rightarrow> lifecycle_state \<Rightarrow> lifecycle_state" where
  "lifecycle_step (Ready c ws sock p mem outcome n1 n2) s = onUpgradeReady c ws sock p mem outcome n1 n2 s"
| "lifecycle_step (ClientClose c) s = clientClose c s"
| "lifecycle_step (ClientError c) s = clientError c s"
| "lifecycle_step (CleanedUpExpiry c) s = s\<lparr> lcTracker := cleanedUpExpiry c (lcTracker s) \<rparr>"

fun run_lifecycle :: "lifecycle_event list \<Rightarrow> lifecycle_state \<Rightarrow> lifecycle_state" where
  "run_lifecycle [] s = s"
| "run_lifecycle (e # es) s = run_lifecycle es (lifecycle_step e s)"

text \<open>The connection ids that the handshakes of a history generate, in order.\<close>

fun readyIds :: "lifecycle_event list \<Rightarrow> string list" where
  "readyIds [] = []"
| "readyIds (Ready c ws sock p mem outcome n1 n2 # es) = c # readyIds es"
| "readyIds (e # es) = readyIds es"

text \<open>
  For the proofs: no cleanup has run more than once, none has run for a connection whose
  close listener is still armed, and nothing is armed or has run for an id to come.
\<close>

definition cleanup_inv :: "string set \<Rightarrow> lifecycle_state \<Rightarrow> bool" where
  "cleanup_inv pending s =
     (\<forall>c. cleanupRuns s c \<le> 1
          \<and> (cleanupObserver s c \<noteq> None \<longrightarrow> cleanupRuns s c = 0)
          \<and> (c \<in> pending \<longrightarrow> cleanupObserver s c = None \<and> cleanupRuns s c = 0))"

section \<open>Attaching to the host server (persistent-servers.ts, setup.ts)\<close>

text \<open>
  The process-wide state that \<open>setupWebSocketServer\<close> reads and writes. Host servers
  and WebSocket servers are named by numbers. \<open>globalHttpServer\<close> and
  \<open>globalWebSocketServer\<close> are the two properties of \<open>globalThis\<close>;
  \<open>wsServerClients\<close> gives the clients of a WebSocket server, \<open>terminatedWsClients\<close>
  the clients on which \<open>terminate()\<close> was called, \<open>closedWebSocketServers\<close> the
  servers on which \<open>close()\<close> was called, \<open>constructedWebSocketServers\<close> counts the
  calls of \<open>new WebSocketServer\<close> (the next server takes the count as its name).
  \<open>serverListenerMap\<close> is the weak map of that name (handler, WebSocket server);
  \<open>upgradeListeners\<close>, \<open>closeListeners\<close> and \<open>requestListeners\<close> are the
  listeners that were attached to each host server. \<open>globalConnectionPool\<close> is the
  process-wide pool, \<open>poolsConstructed\<close> counts the calls of
  \<open>new WebSocketConnectionPool\<close>, and \<open>poolClosedClients\<close> lists the clients that a
  \<open>destroy()\<close> of a pool closed.
\<close>

record process_state =
  runtime :: runtime_state
  globalHttpServer :: "nat option"
  globalWebSocketServer :: "nat option"
  wsServerClients :: "nat \<Rightarrow> nat set"
  terminatedWsClients :: "nat set"
  closedWebSocketServers :: "nat set"
  constructedWebSocketServers :: nat
  serverListenerMap :: "nat \<Rightarrow> (nat \<times> nat) option"
  upgradeListeners :: "nat \<Rightarrow> nat list"
  closeListeners :: "nat \<Rightarrow> nat list"
  requestListeners :: "nat \<Rightarrow> nat list"
  globalConnectionPool :: "WebSocketConnectionPool option"
  poolsConstructed :: nat
  poolClosedClients :: "nat list"
  memoryManagerCreated :: bool
  healthMonitorInitialized :: bool

definition initialProcess :: process_state where
  "initialProcess =
     \<lparr> runtime = initialRuntime, globalHttpServer = None, globalWebSocketServer = None,
       wsServerClients = (\<lambda>w. {}), terminatedWsClients = {}, closedWebSocketServers = {},
       constructedWebSocketServers = 0, serverListenerMap = Map.empty,
       upgradeListeners = (\<lambda>h. []), closeListeners = (\<lambda>h. []),
       requestListeners = (\<lambda>h. []), globalConnectionPool = None, poolsConstructed = 0,
       poolClosedClients = [],
       memoryManagerCreated = False, healthMonitorInitialized = False \<rparr>"

text \<open>
  What \<open>setupWebSocketServer\<close> reads of the \<open>NextNodeServer\<close>: its HTTP server, whether
  its app routes are accessible, and the merged WebSocket configuration.
\<close>

record next_server =
  serverHttpServer :: "nat option"
  appRoutesAccessible :: bool
  configEnabled :: bool
  configMaxConnections :: int
  configTimeout :: int
  monitoringMetrics :: bool
  healthCheckEnabled :: bool

definition clearWebSocketServer :: "process_state \<Rightarrow> process_state" where
  "clearWebSocketServer st =
     (case globalWebSocketServer st of
        None \<Rightarrow> st
      | Some existing \<Rightarrow>
          st\<lparr> terminatedWsClients := terminatedWsClients st \<union> wsServerClients st existing,
              closedWebSocketServers := insert existing (closedWebSocketServers st),
              globalWebSocketServer := None \<rparr>)"

definition isWebSocketSupported :: "next_server \<Rightarrow> bool" where
  "isWebSocketSupported ns = (serverHttpServer ns \<noteq> None \<and> appRoutesAccessible ns)"

definition useHttpServer :: "nat option \<Rightarrow> process_state \<Rightarrow> nat option \<times> process_state" where
  "useHttpServer server st =
     (case globalHttpServer st of
        Some existing \<Rightarrow> (Some existing, st)
      | None \<Rightarrow>
          (case server of
             Some h \<Rightarrow> (Some h, st\<lparr> globalHttpServer := Some h \<rparr>)
           | None \<Rightarrow> (None, st)))"

definition useWebSocketServer :: "nat \<Rightarrow> process_state \<Rightarrow> nat \<times> process_state" where
  "useWebSocketServer wsServer st =
     (case globalWebSocketServer st of
        Some existing \<Rightarrow> (existing, st)
      | None \<Rightarrow> (wsServer, st\<lparr> globalWebSocketServer := Some wsServer \<rparr>))"

text \<open>
  \<open>getConnectionPool\<close>: the process-wide pool, created with the defaults (1000
  connections, 5 minutes) when there is none.
\<close>

definition getConnectionPool :: "process_state \<Rightarrow> process_state" where
  "getConnectionPool st =
     (case globalConnectionPool st of
        Some pool \<Rightarrow> st
      | None \<Rightarrow>
          st\<lparr> globalConnectionPool :=
                Some (newConnectionPool 1000 300000 (healthMonitorInitialized st)),
              poolsConstructed := poolsConstructed st + 1 \<rparr>)"

text \<open>
  \<open>initializeConnectionPool\<close>: the old pool, if any, is destroyed (its connections are
  closed) and a new one takes its place (the idle timeout is \<open>config.timeout || 300000\<close>).
\<close>

definition initializeConnectionPool :: "int \<Rightarrow> int \<Rightarrow> process_state \<Rightarrow> process_state" where
  "initializeConnectionPool maxConns idle st =
     (let st1 = (case globalConnectionPool st of
                   Some old \<Rightarrow>
                     st\<lparr> poolClosedClients := poolClosedClients st @ map snd (connections old) \<rparr>
                 | None \<Rightarrow> st)
      in st1\<lparr> globalConnectionPool :=
                  Some (newConnectionPool maxConns idle (healthMonitorInitialized st1)),
                poolsConstructed := poolsConstructed st1 + 1 \<rparr>)"

text \<open>The part of \<open>setupWebSocketServer\<close> after the check of the listener map.\<close>

definition attachWebSocketServer :: "next_server \<Rightarrow> nat \<Rightarrow> process_state \<Rightarrow> process_state" where
  "attachWebSocketServer ns httpServer st =
     (let fresh = constructedWebSocketServers st;
          st1 = st\<lparr> constructedWebSocketServers := fresh + 1 \<rparr>
      in case useWebSocketServer fresh st1 of
           (wsServer, st2) \<Rightarrow>
             let st3 = initializeConnectionPool (configMaxConnections ns)
                         (if configTimeout ns = 0 then 300000 else configTimeout ns) st2;
                 st4 = (if monitoringMetrics ns \<or> healthCheckEnabled ns
                        then st3\<lparr> healthMonitorInitialized := True,
                                 globalConnectionPool :=
                                   map_option (\<lambda>p. p\<lparr> healthMonitorPresent := True \<rparr>)
                                     (globalConnectionPool st3) \<rparr>
                        else st3);
                 st5 = (if healthCheckEnabled ns
                        then st4\<lparr> requestListeners :=
                                   (requestListeners st4)
                                     (httpServer := requestListeners st4 httpServer @ [wsServer]) \<rparr>
                        else st4)
             in st5\<lparr> serverListenerMap := (serverListenerMap st5)(httpServer \<mapsto> (fresh, wsServer)),
                     upgradeListeners :=
                       (upgradeListeners st5)(httpServer := upgradeListeners st5 httpServer @ [fresh]),
                     closeListeners :=
                       (closeListeners st5)(httpServer := closeListeners st5 httpServer @ [fresh]) \<rparr>)"

text \<open>
  The statements of \<open>setupWebSocketServer\<close> that come before any check:
  \<open>clearWebSocketServer()\<close>, \<open>clearConnectionHandlerCache()\<close> and
  \<open>getMemoryManager().getMemoryStats()\<close>. The last creates the memory manager when there
  is none, and \<open>getMemoryStats\<close> calls \<open>getConnectionPool()\<close>.
\<close>

definition clearStaleState :: "process_state \<Rightarrow> process_state" where
  "clearStaleState st =
     (let st1 = clearWebSocketServer st;
          st2 = st1\<lparr> runtime := clearConnectionHandlerCache (runtime st1) \<rparr>;
          st3 = st2\<lparr> memoryManagerCreated := True \<rparr>
      in getConnectionPool st3)"

definition setupWebSocketServer :: "next_server \<Rightarrow> process_state \<Rightarrow> process_state" where
  "setupWebSocketServer ns st =
     (let st3 = clearStaleState st
      in if \<not> isWebSocketSupported ns then st3
         else if \<not> configEnabled ns then st3
         else
           case useHttpServer (serverHttpServer ns) st3 of
             (None, st4) \<Rightarrow> st4
           | (Some httpServer, st4) \<Rightarrow>
               (case serverListenerMap st4 httpServer of
                  Some existingSetup \<Rightarrow> st4
                | None \<Rightarrow> attachWebSocketServer ns httpServer st4))"

definition exampleServer :: next_server where
  "exampleServer =
     \<lparr> serverHttpServer = Some 1, appRoutesAccessible = True, configEnabled = True,
       configMaxConnections = 1000, configTimeout = 30000, monitoringMetrics = False,
       healthCheckEnabled = False \<rparr>"


section \<open>Theorems\<close>

subsection \<open>Recovery strategy\<close>

text \<open>
  Claim C7. \<open>getRecoveryStrategy\<close> is a total function of the error value alone:
  the four kinds RouteNotFound, HandlerNotFound, ServerNotAvailable and ConnectionLimit
  give CLOSE_CONNECTION; ModuleImport and HandlerExecution give TERMINATE_CONNECTION; so
  does a \<open>WebSocketError\<close> with any other code, and so does every value that is not a
  \<open>WebSocketError\<close>.
\<close>

theorem getRecoveryStrategy_mapping:
  "getRecoveryStrategy (RouteNotFoundError p1) = CLOSE_CONNECTION
   \<and> getRecoveryStrategy (HandlerNotFoundError p2) = CLOSE_CONNECTION
   \<and> getRecoveryStrategy (ServerNotAvailableError r) = CLOSE_CONNECTION
   \<and> getRecoveryStrategy (ConnectionLimitError n) = CLOSE_CONNECTION
   \<and> getRecoveryStrategy (ModuleImportError p3) = TERMINATE_CONNECTION
   \<and> getRecoveryStrategy (HandlerExecutionError p4 e0) = TERMINATE_CONNECTION
   \<and> getRecoveryStrategy (WebSocketError c s) =
         (if c \<in> {''ROUTE_NOT_FOUND'', ''HANDLER_NOT_FOUND'',
                    ''SERVER_NOT_AVAILABLE'', ''CONNECTION_LIMIT_EXCEEDED''}
          then CLOSE_CONNECTION else TERMINATE_CONNECTION)
   \<and> (\<not> isWebSocketError e \<longrightarrow> getRecoveryStrategy e = TERMINATE_CONNECTION)"
proof -
  have known:
    "getRecoveryStrategy (RouteNotFoundError p1) = CLOSE_CONNECTION"
    "getRecoveryStrategy (HandlerNotFoundError p2) = CLOSE_CONNECTION"
    "getRecoveryStrategy (ServerNotAvailableError r) = CLOSE_CONNECTION"
    "getRecoveryStrategy (ConnectionLimitError n) = CLOSE_CONNECTION"
    "getRecoveryStrategy (ModuleImportError p3) = TERMINATE_CONNECTION"
    "getRecoveryStrategy (HandlerExecutionError p4 e0) = TERMINATE_CONNECTION"
    by (simp_all add: RouteNotFoundError_def HandlerNotFoundError_def
        ServerNotAvailableError_def ConnectionLimitError_def ModuleImportError_def
        HandlerExecutionError_def)
  have coded: "getRecoveryStrategy (WebSocketError c s) =
         (if c \<in> {''ROUTE_NOT_FOUND'', ''HANDLER_NOT_FOUND'',
                    ''SERVER_NOT_AVAILABLE'', ''CONNECTION_LIMIT_EXCEEDED''}
          then CLOSE_CONNECTION else TERMINATE_CONNECTION)"
    by simp
  have other: "\<not> isWebSocketError e \<longrightarrow> getRecoveryStrategy e = TERMINATE_CONNECTION"
    by (cases e) simp_all
  from known coded other show ?thesis by blast
qed

theorem getRecoveryStrategy_mapping_witness:
  "\<not> isWebSocketError (PlainError ''boom'')
   \<and> getRecoveryStrategy (PlainError ''boom'') = TERMINATE_CONNECTION
   \<and> getRecoveryStrategy (RouteNotFoundError ''/nope'') = CLOSE_CONNECTION
   \<and> getRecoveryStrategy (WebSocketError ''SOMETHING_ELSE'' None) = TERMINATE_CONNECTION"
  using getRecoveryStrategy_mapping
    [of "''/nope''" "''/p''" "''r''" 1 "''/q''" "''/h''" NonError "''SOMETHING_ELSE''" None
      "PlainError ''boom''"]
  by simp

subsection \<open>Circuit breaker\<close>

lemma config_cleanup [simp]: "config (cleanupOldFailures n b) = config b"
  and state_cleanup [simp]: "state (cleanupOldFailures n b) = state b"
  and lft_cleanup [simp]: "lastFailureTime (cleanupOldFailures n b) = lastFailureTime b"
  by (simp_all add: cleanupOldFailures_def Let_def)






text \<open>
  Claim C10. For a CLOSED breaker, \<open>recordFailure\<close> opens the circuit exactly when the
  number of timestamps left in the sliding window (the old window with the new failure
  appended, pruned at the cutoff) reaches \<open>failureThreshold\<close>. The value that
  \<open>currentFailures\<close> had before the call plays no part: \<open>recordFailure\<close> and
  \<open>canExecute\<close> give the same result whatever it was, and both leave
  \<open>currentFailures\<close> equal to the length of the window. So the decrement that
  \<open>recordSuccess\<close> applies to \<open>currentFailures\<close> in state CLOSED changes neither the
  state, nor the window, nor the failure count that the next \<open>recordFailure\<close>
  produces.
\<close>

theorem recordFailure_window_only:
  "(state b = CLOSED \<longrightarrow>
      (state (recordFailure now nowCleanup b) = OPEN \<longleftrightarrow>
         failureThreshold (config b) \<le>
           int (length (filter (\<lambda>time. time > nowCleanup - monitoringWindow (config b))
                         (failureWindow b @ [now])))))
   \<and> recordFailure now nowCleanup (b\<lparr> currentFailures := x \<rparr>) = recordFailure now nowCleanup b
   \<and> canExecute n1 n2 (b\<lparr> currentFailures := x \<rparr>) = canExecute n1 n2 b
   \<and> currentFailures (recordFailure now nowCleanup b)
       = int (length (failureWindow (recordFailure now nowCleanup b)))
   \<and> currentFailures (snd (canExecute n1 n2 b))
       = int (length (failureWindow (snd (canExecute n1 n2 b))))
   \<and> (state b = CLOSED \<longrightarrow>
        recordSuccess ts b =
          b\<lparr> totalRequests := totalRequests b + 1, totalSuccesses := totalSuccesses b + 1,
             lastSuccessTime := Some ts,
             currentFailures := max 0 (currentFailures b - 1) \<rparr>
        \<and> state (recordFailure now nowCleanup (recordSuccess ts b))
            = state (recordFailure now nowCleanup b)
        \<and> failureWindow (recordFailure now nowCleanup (recordSuccess ts b))
            = failureWindow (recordFailure now nowCleanup b)
        \<and> currentFailures (recordFailure now nowCleanup (recordSuccess ts b))
            = currentFailures (recordFailure now nowCleanup b))"
  by (auto simp: recordFailure_def recordSuccess_def canExecute_def cleanupOldFailures_def
      openCircuit_def Let_def split: CircuitState.splits)

theorem recordFailure_window_only_witness:
  "state (newRouteCircuitBreaker ''/api/bad'' (defaultConfig\<lparr> failureThreshold := 1 \<rparr>))
     = CLOSED
   \<and> state (recordFailure 1000 1000
        (newRouteCircuitBreaker ''/api/bad'' (defaultConfig\<lparr> failureThreshold := 1 \<rparr>)))
     = OPEN
   \<and> state (recordFailure 1000 1000 (recordSuccess 900
        (newRouteCircuitBreaker ''/api/bad'' (defaultConfig\<lparr> failureThreshold := 1 \<rparr>))))
     = OPEN"
proof -
  let ?b = "newRouteCircuitBreaker ''/api/bad'' (defaultConfig\<lparr> failureThreshold := 1 \<rparr>)"
  have st: "state ?b = CLOSED" by (simp add: newRouteCircuitBreaker_def)
  have cnt: "failureThreshold (config ?b) \<le>
      int (length (filter (\<lambda>time. time > 1000 - monitoringWindow (config ?b))
                    (failureWindow ?b @ [1000])))"
    by (simp add: newRouteCircuitBreaker_def defaultConfig_def)
  note th = recordFailure_window_only [of ?b 1000 1000 0 0 0 900]
  from th st cnt have opened: "state (recordFailure 1000 1000 ?b) = OPEN" by blast
  from th st have same:
    "state (recordFailure 1000 1000 (recordSuccess 900 ?b)) = state (recordFailure 1000 1000 ?b)"
    by blast
  from st opened same show ?thesis by simp
qed

subsection \<open>Rate limiter\<close>

lemma filter_filter_gt:
  "(d::int) \<le> c \<Longrightarrow> filter (\<lambda>t. c < t) (filter (\<lambda>t. d < t) xs) = filter (\<lambda>t. c < t) xs"
  by (induction xs) auto

lemma length_filter_gt_mono:
  "(d::int) \<le> c \<Longrightarrow> length (filter (\<lambda>t. c < t) xs) \<le> length (filter (\<lambda>t. d < t) xs)"
  by (induction xs) auto

lemma admittedInWindow_length:
  "length (admittedInWindow k a w adm)
     = length (filter (\<lambda>t. a < t \<and> t \<le> a + w) (timesOf k adm))"
  by (induction adm) (auto simp: admittedInWindow_def timesOf_def)

lemma filter_upper_triv:
  "\<forall>t \<in> set xs. t \<le> (u::int) \<Longrightarrow> filter (\<lambda>t. a < t \<and> t \<le> u) xs = filter (\<lambda>t. a < t) xs"
  by (induction xs) auto

lemma stored_isAllowed:
  "stored (snd (snd (isAllowed req sock now lim))) k =
     (if k = generateKey (rateLimitConfig lim) req sock
      then filter (\<lambda>t. now - windowMs (rateLimitConfig lim) < t) (stored lim k)
             @ (if fst (isAllowed req sock now lim) then [now] else [])
      else stored lim k)"
  by (simp add: isAllowed_def stored_def Let_def)

lemma allowed_isAllowed:
  "fst (isAllowed req sock now lim) \<longleftrightarrow>
     int (length (filter (\<lambda>t. now - windowMs (rateLimitConfig lim) < t)
                    (stored lim (generateKey (rateLimitConfig lim) req sock))))
       < maxRequests (rateLimitConfig lim)"
  by (simp add: isAllowed_def stored_def Let_def)

lemma config_isAllowed:
  "rateLimitConfig (snd (snd (isAllowed req sock now lim))) = rateLimitConfig lim"
  by (simp add: isAllowed_def Let_def)

lemma stored_cleanupLimiter:
  "stored (cleanupLimiter now lim) k
     = filter (\<lambda>t. now - windowMs (rateLimitConfig lim) < t) (stored lim k)"
  by (simp add: cleanupLimiter_def stored_def Let_def split: option.splits)

lemma config_cleanupLimiter: "rateLimitConfig (cleanupLimiter now lim) = rateLimitConfig lim"
  by (simp add: cleanupLimiter_def Let_def)

lemma timesOf_append: "timesOf k (xs @ ys) = timesOf k xs @ timesOf k ys"
  by (simp add: timesOf_def)

lemma timesOf_set: "t \<in> set (timesOf k adm) \<Longrightarrow> (k, t) \<in> set adm"
  by (auto simp: timesOf_def)

lemma limiter_step_Check:
  "limiter_step (Check req sock now) (lim, adm) =
     (snd (snd (isAllowed req sock now lim)),
      if fst (isAllowed req sock now lim)
      then adm @ [(generateKey (rateLimitConfig lim) req sock, now)] else adm)"
  by (simp add: case_prod_beta)

lemma limiter_inv_Check:
  assumes inv: "limiter_inv cfg T (lim, adm)" and mono: "T \<le> now"
  shows "limiter_inv cfg now (limiter_step (Check req sock now) (lim, adm))"
proof -
  let ?W = "windowMs cfg"
  let ?key = "generateKey cfg req sock"
  let ?al = "fst (isAllowed req sock now lim)"
  let ?lim' = "snd (snd (isAllowed req sock now lim))"
  let ?adm' = "if ?al then adm @ [(?key, now)] else adm"
  from inv have cfg: "rateLimitConfig lim = cfg"
    and sync: "\<And>k c. T - ?W \<le> c \<Longrightarrow>
        filter (\<lambda>t. c < t) (stored lim k) = filter (\<lambda>t. c < t) (timesOf k adm)"
    and upper: "\<And>e. e \<in> set adm \<Longrightarrow> snd e \<le> T"
    and bound: "\<And>k a. int (length (admittedInWindow k a ?W adm)) \<le> max 0 (maxRequests cfg)"
    by (auto simp: limiter_inv_def)
  have step: "limiter_step (Check req sock now) (lim, adm) = (?lim', ?adm')"
    by (simp only: limiter_step_Check cfg)
  have c1: "rateLimitConfig ?lim' = cfg"
    using cfg by (simp add: config_isAllowed)
  have c2: "filter (\<lambda>t. c < t) (stored ?lim' k) = filter (\<lambda>t. c < t) (timesOf k ?adm')"
    if c: "now - ?W \<le> c" for k c
  proof -
    from c mono have cT: "T - ?W \<le> c" by simp
    show ?thesis
    proof (cases "k = ?key")
      case True
      have "filter (\<lambda>t. c < t) (filter (\<lambda>t. now - ?W < t) (stored lim k))
              = filter (\<lambda>t. c < t) (timesOf k adm)"
        using filter_filter_gt [OF c] sync [OF cT] by simp
      then show ?thesis
        using True cfg by (simp add: stored_isAllowed timesOf_append) (simp add: timesOf_def)
    next
      case False
      then show ?thesis
        using cfg sync [OF cT] by (simp add: stored_isAllowed timesOf_append) (simp add: timesOf_def)
    qed
  qed
  have c3: "snd e \<le> now" if "e \<in> set ?adm'" for e
    using that upper [of e] mono by (auto split: if_splits)
  have c4: "int (length (admittedInWindow k a ?W ?adm')) \<le> max 0 (maxRequests cfg)" for k a
  proof (cases "?al \<and> k = ?key \<and> a < now \<and> now \<le> a + ?W")
    case False
    then have "admittedInWindow k a ?W ?adm' = admittedInWindow k a ?W adm"
      by (auto simp: admittedInWindow_def)
    then show ?thesis using bound [of k a] by simp
  next
    case True
    then have al: ?al and k: "k = ?key" and a1: "a < now" and a2: "now \<le> a + ?W" by auto
    from a2 have aW: "now - ?W \<le> a" by simp
    with mono have aT: "T - ?W \<le> a" by simp
    have le: "\<forall>t \<in> set (timesOf k adm). t \<le> a + ?W"
    proof
      fix t assume "t \<in> set (timesOf k adm)"
      then have "(k, t) \<in> set adm" by (rule timesOf_set)
      from upper [OF this] mono a2 show "t \<le> a + ?W" by simp
    qed
    have "length (admittedInWindow k a ?W adm)
            = length (filter (\<lambda>t. a < t) (timesOf k adm))"
      by (simp add: admittedInWindow_length filter_upper_triv [OF le])
    also have "\<dots> = length (filter (\<lambda>t. a < t) (stored lim k))"
      using sync [OF aT, of k] by simp
    also have "\<dots> \<le> length (filter (\<lambda>t. now - ?W < t) (stored lim k))"
      by (rule length_filter_gt_mono [OF aW])
    finally have l1: "length (admittedInWindow k a ?W adm)
        \<le> length (filter (\<lambda>t. now - ?W < t) (stored lim k))" .
    from al have l2: "int (length (filter (\<lambda>t. now - ?W < t) (stored lim ?key))) < maxRequests cfg"
      using cfg by (simp add: allowed_isAllowed)
    have "admittedInWindow k a ?W ?adm' = admittedInWindow k a ?W adm @ [(?key, now)]"
      using True by (simp add: admittedInWindow_def)
    then show ?thesis using l1 l2 k by simp
  qed
  show ?thesis
    unfolding step limiter_inv_def fst_conv snd_conv
    using c1 c2 c3 c4 by blast
qed

lemma limiter_inv_Sweep:
  assumes inv: "limiter_inv cfg T (lim, adm)" and mono: "T \<le> now"
  shows "limiter_inv cfg now (limiter_step (Sweep now) (lim, adm))"
proof -
  let ?W = "windowMs cfg"
  from inv have cfg: "rateLimitConfig lim = cfg"
    and sync: "\<And>k c. T - ?W \<le> c \<Longrightarrow>
        filter (\<lambda>t. c < t) (stored lim k) = filter (\<lambda>t. c < t) (timesOf k adm)"
    and upper: "\<And>e. e \<in> set adm \<Longrightarrow> snd e \<le> T"
    and bound: "\<And>k a. int (length (admittedInWindow k a ?W adm)) \<le> max 0 (maxRequests cfg)"
    by (auto simp: limiter_inv_def)
  have c2: "filter (\<lambda>t. c < t) (stored (cleanupLimiter now lim) k)
              = filter (\<lambda>t. c < t) (timesOf k adm)"
    if c: "now - ?W \<le> c" for k c
  proof -
    from c mono have cT: "T - ?W \<le> c" by simp
    show ?thesis
      using filter_filter_gt [OF c] sync [OF cT] cfg by (simp add: stored_cleanupLimiter)
  qed
  have c3: "snd e \<le> now" if "e \<in> set adm" for e
    using upper [OF that] mono by simp
  show ?thesis
    unfolding limiter_step.simps limiter_inv_def fst_conv snd_conv
    using cfg c2 c3 bound by (simp add: config_cleanupLimiter)
qed

lemma limiter_inv_run:
  "limiter_inv cfg T st \<Longrightarrow> sorted (T # map event_time es) \<Longrightarrow>
     \<exists>T'. limiter_inv cfg T' (run_limiter es st)"
proof (induction es arbitrary: T st)
  case Nil
  then show ?case by auto
next
  case (Cons e es)
  obtain lim adm where st: "st = (lim, adm)" by (cases st)
  from Cons.prems(2) have le: "T \<le> event_time e" and srt: "sorted (event_time e # map event_time es)"
    by simp_all
  have "limiter_inv cfg (event_time e) (limiter_step e st)"
  proof (cases e)
    case (Check req sock now)
    then show ?thesis using limiter_inv_Check [of cfg T lim adm now req sock] Cons.prems(1) le st
      by simp
  next
    case (Sweep now)
    then show ?thesis using limiter_inv_Sweep [of cfg T lim adm now] Cons.prems(1) le st
      by simp
  qed
  from Cons.IH [OF this srt] show ?case by simp
qed

lemma limiter_inv_new: "limiter_inv cfg T (newWebSocketRateLimiter cfg, [])"
  by (simp add: limiter_inv_def newWebSocketRateLimiter_def stored_def timesOf_def
      admittedInWindow_def)

text \<open>
  Claim C5 as stated fails. With \<open>windowMs\<close> 1000 and \<open>maxRequests\<close> 1, a check at
  time 1000 is admitted and records 1000. At time 2000 the timestamp 1000 is not older than
  \<open>now - windowMs\<close> (it is equal to it), yet the check drops it and admits again: two
  admissions of one key in the window of length \<open>windowMs\<close> from 1000 to 2000. And
  when the clock goes back (a check at 5000, a sweep at 6001, a check at 5500), two checks
  are admitted within 500 ms.
\<close>

theorem isAllowed_admits_twice_at_boundary:
  "maxRequests \<lparr> windowMs = 1000, maxRequests = 1, keyGenerator = None \<rparr> = 1
   \<and> stored (snd (snd (isAllowed (exampleClient 1) (exampleClientSocket 1) 1000
        (newWebSocketRateLimiter \<lparr> windowMs = 1000, maxRequests = 1, keyGenerator = None \<rparr>))))
        ''ip:1.2.3.4'' = [1000]
   \<and> \<not> (1000 < 2000 - windowMs \<lparr> windowMs = 1000, maxRequests = 1, keyGenerator = None \<rparr>)
   \<and> stored (snd (snd (isAllowed (exampleClient 2) (exampleClientSocket 2) 2000
        (snd (snd (isAllowed (exampleClient 1) (exampleClientSocket 1) 1000
           (newWebSocketRateLimiter \<lparr> windowMs = 1000, maxRequests = 1, keyGenerator = None \<rparr>)))))))
        ''ip:1.2.3.4'' = [2000]
   \<and> snd (run_limiter
        [Check (exampleClient 1) (exampleClientSocket 1) 1000,
         Check (exampleClient 2) (exampleClientSocket 2) 2000]
        (newWebSocketRateLimiter \<lparr> windowMs = 1000, maxRequests = 1, keyGenerator = None \<rparr>, []))
       = [(''ip:1.2.3.4'', 1000), (''ip:1.2.3.4'', 2000)]
   \<and> length (filter (\<lambda>e. fst e = ''ip:1.2.3.4'' \<and> 1000 \<le> snd e \<and> snd e \<le> 1000 + 1000)
        [(''ip:1.2.3.4'', 1000 :: int), (''ip:1.2.3.4'', 2000)]) = 2
   \<and> snd (run_limiter
        [Check (exampleClient 1) (exampleClientSocket 1) 5000, Sweep 6001,
         Check (exampleClient 2) (exampleClientSocket 2) 5500]
        (newWebSocketRateLimiter \<lparr> windowMs = 1000, maxRequests = 1, keyGenerator = None \<rparr>, []))
       = [(''ip:1.2.3.4'', 5000), (''ip:1.2.3.4'', 5500)]
   \<and> length (admittedInWindow ''ip:1.2.3.4'' 4999 1000
        [(''ip:1.2.3.4'', 5000), (''ip:1.2.3.4'', 5500)]) = 2"
  by (simp add: isAllowed_def cleanupLimiter_def newWebSocketRateLimiter_def generateKey_def
      orElse_def stored_def admittedInWindow_def exampleClient_def exampleClientSocket_def
      Let_def)

text \<open>
  Claim C5, amended. One check: \<open>isAllowed\<close> keeps of the key's bucket exactly the
  timestamps \<open>time > now - windowMs\<close> (it drops those that are not newer than
  \<open>now - windowMs\<close>, the one equal to it included), admits if and only if the number
  kept is strictly below \<open>maxRequests\<close>, appends \<open>now\<close> to the bucket exactly when it
  admits, and touches no other key. A whole history: when the clock readings of the checks
  and sweeps of a limiter (with no call of its \<open>reset\<close>) never go back, then for every
  key \<open>k\<close> and every window \<open>(a, a + windowMs]\<close>, open at its start, the number of
  admitted checks of \<open>k\<close> with their time in the window is at most \<open>maxRequests\<close>
  (none when \<open>maxRequests\<close> is not positive).
\<close>

theorem isAllowed_sliding_window:
  "(fst (isAllowed req sock now lim) \<longleftrightarrow>
      int (length (filter (\<lambda>time. time > now - windowMs (rateLimitConfig lim))
                     (stored lim (generateKey (rateLimitConfig lim) req sock))))
        < maxRequests (rateLimitConfig lim))
   \<and> stored (snd (snd (isAllowed req sock now lim))) (generateKey (rateLimitConfig lim) req sock)
       = filter (\<lambda>time. time > now - windowMs (rateLimitConfig lim))
           (stored lim (generateKey (rateLimitConfig lim) req sock))
         @ (if fst (isAllowed req sock now lim) then [now] else [])
   \<and> (k \<noteq> generateKey (rateLimitConfig lim) req sock \<longrightarrow>
        requests (snd (snd (isAllowed req sock now lim))) k = requests lim k)
   \<and> (sorted (map event_time es) \<longrightarrow>
        int (length (admittedInWindow k a (windowMs cfg)
                       (snd (run_limiter es (newWebSocketRateLimiter cfg, [])))))
          \<le> max 0 (maxRequests cfg))"
proof -
  have one: "fst (isAllowed req sock now lim) \<longleftrightarrow>
      int (length (filter (\<lambda>time. time > now - windowMs (rateLimitConfig lim))
                     (stored lim (generateKey (rateLimitConfig lim) req sock))))
        < maxRequests (rateLimitConfig lim)"
    by (rule allowed_isAllowed)
  have two: "stored (snd (snd (isAllowed req sock now lim)))
        (generateKey (rateLimitConfig lim) req sock)
       = filter (\<lambda>time. time > now - windowMs (rateLimitConfig lim))
           (stored lim (generateKey (rateLimitConfig lim) req sock))
         @ (if fst (isAllowed req sock now lim) then [now] else [])"
    by (simp add: stored_isAllowed)
  have three: "k \<noteq> generateKey (rateLimitConfig lim) req sock \<longrightarrow>
        requests (snd (snd (isAllowed req sock now lim))) k = requests lim k"
    by (simp add: isAllowed_def Let_def)
  have four: "int (length (admittedInWindow k a (windowMs cfg)
                       (snd (run_limiter es (newWebSocketRateLimiter cfg, [])))))
          \<le> max 0 (maxRequests cfg)"
    if srt: "sorted (map event_time es)"
  proof -
    let ?T = "case es of [] \<Rightarrow> 0 | e # _ \<Rightarrow> event_time e"
    from srt have "sorted (?T # map event_time es)"
      by (cases es) simp_all
    from limiter_inv_run [OF limiter_inv_new this]
    obtain T' where "limiter_inv cfg T' (run_limiter es (newWebSocketRateLimiter cfg, []))"
      by blast
    then show ?thesis by (simp add: limiter_inv_def)
  qed
  from one two three four show ?thesis by blast
qed

theorem isAllowed_sliding_window_witness:
  "sorted (map event_time
      [Check \<lparr> url = Some ''/api/chat'', hostHeader = None, xForwardedFor = None, xRealIp = None \<rparr>
             \<lparr> socketId = 1, remoteAddress = Some ''1.2.3.4'' \<rparr> 100,
       Check \<lparr> url = Some ''/api/chat'', hostHeader = None, xForwardedFor = None, xRealIp = None \<rparr>
             \<lparr> socketId = 2, remoteAddress = Some ''1.2.3.4'' \<rparr> 200,
       Check \<lparr> url = Some ''/api/chat'', hostHeader = None, xForwardedFor = None, xRealIp = None \<rparr>
             \<lparr> socketId = 3, remoteAddress = Some ''1.2.3.4'' \<rparr> 300])
   \<and> ''ip:1.2.3.4'' \<noteq> generateKey \<lparr> windowMs = 1000, maxRequests = 2, keyGenerator = None \<rparr>
         \<lparr> url = Some ''/api/chat'', hostHeader = None,
           xForwardedFor = Some '' 5.6.7.8 , 10.0.0.1'', xRealIp = None \<rparr>
         \<lparr> socketId = 4, remoteAddress = Some ''1.2.3.4'' \<rparr>
   \<and> snd (run_limiter
      [Check \<lparr> url = Some ''/api/chat'', hostHeader = None, xForwardedFor = None, xRealIp = None \<rparr>
             \<lparr> socketId = 1, remoteAddress = Some ''1.2.3.4'' \<rparr> 100,
       Check \<lparr> url = Some ''/api/chat'', hostHeader = None, xForwardedFor = None, xRealIp = None \<rparr>
             \<lparr> socketId = 2, remoteAddress = Some ''1.2.3.4'' \<rparr> 200,
       Check \<lparr> url = Some ''/api/chat'', hostHeader = None, xForwardedFor = None, xRealIp = None \<rparr>
             \<lparr> socketId = 3, remoteAddress = Some ''1.2.3.4'' \<rparr> 300]
      (newWebSocketRateLimiter \<lparr> windowMs = 1000, maxRequests = 2, keyGenerator = None \<rparr>, []))
     = [(''ip:1.2.3.4'', 100), (''ip:1.2.3.4'', 200)]
   \<and> int (length (admittedInWindow ''ip:1.2.3.4'' 0 1000 [(''ip:1.2.3.4'', 100), (''ip:1.2.3.4'', 200)]))
       \<le> 2"
proof -
  let ?cfg = "\<lparr> windowMs = 1000, maxRequests = 2, keyGenerator = None \<rparr>"
  let ?req = "\<lparr> url = Some ''/api/chat'', hostHeader = None, xForwardedFor = None, xRealIp = None \<rparr>"
  let ?req' = "\<lparr> url = Some ''/api/chat'', hostHeader = None,
           xForwardedFor = Some '' 5.6.7.8 , 10.0.0.1'', xRealIp = None \<rparr>"
  let ?es = "[Check ?req \<lparr> socketId = 1, remoteAddress = Some ''1.2.3.4'' \<rparr> 100,
       Check ?req \<lparr> socketId = 2, remoteAddress = Some ''1.2.3.4'' \<rparr> 200,
       Check ?req \<lparr> socketId = 3, remoteAddress = Some ''1.2.3.4'' \<rparr> 300]"
  have srt: "sorted (map event_time ?es)" by simp
  have key: "generateKey ?cfg ?req' \<lparr> socketId = 4, remoteAddress = Some ''1.2.3.4'' \<rparr>
      = ''ip:5.6.7.8''"
    by (simp add: generateKey_def orElse_def trim_def trimEnd_def firstOfSplitComma_def
        js_whitespace1_def js_whitespace2_def js_whitespace3_def)
  have run: "snd (run_limiter ?es (newWebSocketRateLimiter ?cfg, []))
      = [(''ip:1.2.3.4'', 100), (''ip:1.2.3.4'', 200)]"
    by (simp add: isAllowed_def newWebSocketRateLimiter_def generateKey_def orElse_def Let_def)
  note th = isAllowed_sliding_window
    [of ?req' "\<lparr> socketId = 4, remoteAddress = Some ''1.2.3.4'' \<rparr>" 0
        "newWebSocketRateLimiter ?cfg" "''ip:1.2.3.4''" ?es 0 ?cfg]
  from th srt run
  have bound: "int (length (admittedInWindow ''ip:1.2.3.4'' 0 1000
      [(''ip:1.2.3.4'', 100), (''ip:1.2.3.4'', 200)])) \<le> 2"
    by simp
  from srt key run bound show ?thesis by simp
qed

lemma trim_examples:
  "trim '' 5.6.7.8  '' = ''5.6.7.8''"
  "trim [CHR 0xC2, CHR 0xA0, CHR ''a'', CHR 0xEF, CHR 0xBB, CHR 0xBF, CHR 0x09] = ''a''"
  "trim [CHR 0xE2, CHR 0x80, CHR 0x83, CHR ''a'', CHR '' '', CHR ''b'', CHR 0xE3, CHR 0x80, CHR 0x80]
     = ''a b''"
  "trim [CHR 0xC3, CHR 0xA0] = [CHR 0xC3, CHR 0xA0]"
  by (simp_all add: trim_def trimEnd_def js_whitespace1_def js_whitespace2_def js_whitespace3_def)

subsection \<open>Pool capacity\<close>

lemma length_AList_update_le: "length (AList.update k v al) \<le> Suc (length al)"
  by (induction al) auto

text \<open>
  Claim C4. \<open>addConnection\<close> returns false and leaves the pool as it is whenever the
  pool holds \<open>maxConnections\<close> connections or more; and whenever it admits a connection,
  the pool size was below \<open>maxConnections\<close> before and is at most \<open>maxConnections\<close>
  afterwards.
\<close>

theorem addConnection_capacity:
  "(poolSize p \<ge> maxConnections p \<longrightarrow>
      addConnection cid ws pth now1 now2 p = (False, p))
   \<and> (fst (addConnection cid ws pth now1 now2 p) \<longrightarrow>
        poolSize p \<le> maxConnections p
        \<and> poolSize p < maxConnections p
        \<and> poolSize (snd (addConnection cid ws pth now1 now2 p)) \<le> maxConnections p
        \<and> maxConnections (snd (addConnection cid ws pth now1 now2 p)) = maxConnections p
        \<and> map_of (connections (snd (addConnection cid ws pth now1 now2 p))) cid = Some ws)"
proof -
  have len: "length (AList.update cid ws (connections p)) \<le> Suc (length (connections p))"
    by (rule length_AList_update_le)
  show ?thesis
    using len by (auto simp: addConnection_def poolSize_def Let_def update_conv')
qed

theorem addConnection_capacity_witness:
  "addConnection ''b'' 2 ''/api/echo'' 5 5
       (snd (addConnection ''a'' 1 ''/api/echo'' 0 0 (newConnectionPool 1 300000 False)))
     = (False, snd (addConnection ''a'' 1 ''/api/echo'' 0 0 (newConnectionPool 1 300000 False)))
   \<and> fst (addConnection ''a'' 1 ''/api/echo'' 0 0 (newConnectionPool 1 300000 False))
   \<and> poolSize (snd (addConnection ''a'' 1 ''/api/echo'' 0 0 (newConnectionPool 1 300000 False))) \<le> 1"
proof -
  let ?p0 = "newConnectionPool 1 300000 False"
  let ?p1 = "snd (addConnection ''a'' 1 ''/api/echo'' 0 0 ?p0)"
  have adm: "fst (addConnection ''a'' 1 ''/api/echo'' 0 0 ?p0)"
    by (simp add: addConnection_def poolSize_def newConnectionPool_def)
  have full: "poolSize ?p1 \<ge> maxConnections ?p1"
    by (simp add: addConnection_def poolSize_def newConnectionPool_def)
  have mx: "maxConnections ?p0 = 1"
    by (simp add: newConnectionPool_def)
  from addConnection_capacity [of ?p1 "''b''" 2 "''/api/echo''" 5 5] full
  have a: "addConnection ''b'' 2 ''/api/echo'' 5 5 ?p1 = (False, ?p1)" by blast
  from addConnection_capacity [of ?p0 "''a''" 1 "''/api/echo''" 0 0] adm mx
  have b: "poolSize ?p1 \<le> 1" by simp
  from a adm b show ?thesis by blast
qed

subsection \<open>Upgrade pipeline\<close>

lemmas example_defs =
  exampleEnv_def exampleRequest_def exampleSocket_def initialRuntime_def
  newConnectionTracker_def

lemmas pipeline_defs =
  handleUpgrade_def resolveAndDelegate_def resolveWebSocketRoute_def resolvePathToRoute_def
  importRouteModule_def getSocketHandler_def getOrInitializeConnectionHandler_def
  destroyAndRelease_def isSocketActive_def markSocketActive_def markSocketInactive_def
  startsWith_def endsWith_def invocationsOf_def Let_def

text \<open>\<open>resolveWebSocketRoute\<close> never returns \<open>null\<close>: a failure is always thrown.\<close>

lemma resolveWebSocketRoute_not_null: "resolveWebSocketRoute env pathname \<noteq> Inr None"
  by (simp add: resolveWebSocketRoute_def split: option.splits)

lemma resolveWebSocketRoute_failures:
  "(resolvePathToRoute env pathname = None \<longrightarrow>
      resolveWebSocketRoute env pathname = Inl (RouteNotFoundError pathname))
   \<and> (resolvePathToRoute env pathname = Some ri \<and> importRouteModule env (filePath ri) = None \<longrightarrow>
        resolveWebSocketRoute env pathname = Inl (ModuleImportError (filePath ri)))
   \<and> (resolvePathToRoute env pathname = Some ri \<and> importRouteModule env (filePath ri) = Some m
        \<and> getSocketHandler (Some m) = None \<longrightarrow>
        resolveWebSocketRoute env pathname = Inl (HandlerNotFoundError pathname))"
  by (simp add: resolveWebSocketRoute_def)

text \<open>
  What \<open>handleUpgrade\<close> does when the route resolution fails, whatever the failure: the
  handler's promise rejects, no handshake is delegated, the socket is not destroyed and
  stays in the in-flight set.
\<close>

lemma resolveAndDelegate_failure:
  "resolveWebSocketRoute env pathname = Inl err \<Longrightarrow>
     resolveAndDelegate env sock pathname s = (Rejected err, s)"
  by (simp add: resolveAndDelegate_def)

lemma handleUpgrade_resolution_failure:
  assumes "\<not> isSocketActive sock (tracker s)"
    and "parsePathname env
           (case url request of Some u \<Rightarrow> (if u = [] then ''/'' else u) | None \<Rightarrow> ''/'')
           (case hostHeader request of
              Some h \<Rightarrow> (if h = [] then ''localhost'' else h) | None \<Rightarrow> ''localhost'')
         = Some pathname"
    and "\<not> startsWith pathname ''/_next/''"
    and "routeRateLimit env pathname = None"
    and "resolveWebSocketRoute env pathname = Inl err"
  shows "handleUpgrade env request sock now s
           = (Rejected err, s\<lparr> tracker := markSocketActive sock (tracker s) \<rparr>)"
  using assms by (simp add: handleUpgrade_def Let_def resolveAndDelegate_failure)

text \<open>
  Claim C1, at the input of the unknown route: an upgrade request for \<open>/nope\<close>, which
  matches no route, on socket 1. The promise of \<open>handleUpgrade\<close> rejects with the
  RouteNotFound error; no handshake was delegated, but \<open>destroy()\<close> was not called on
  the socket and the socket is still in the tracker's in-flight set.
\<close>

theorem handleUpgrade_unknown_route_leaves_socket:
  "fst (handleUpgrade exampleEnv (exampleRequest ''/nope'') (exampleSocket 1) 1000 initialRuntime)
     = Rejected (RouteNotFoundError ''/nope'')
   \<and> delegatedUpgrades
       (snd (handleUpgrade exampleEnv (exampleRequest ''/nope'') (exampleSocket 1) 1000 initialRuntime))
     = []
   \<and> 1 \<notin> destroyedSockets
       (snd (handleUpgrade exampleEnv (exampleRequest ''/nope'') (exampleSocket 1) 1000 initialRuntime))
   \<and> 1 \<in> activeUpgrades (tracker
       (snd (handleUpgrade exampleEnv (exampleRequest ''/nope'') (exampleSocket 1) 1000 initialRuntime)))"
  by (simp add: pipeline_defs example_defs)

text \<open>The sibling path, a factory that fails, does destroy and release the socket.\<close>

lemma handleUpgrade_factory_failure_releases_socket:
  "fst (handleUpgrade exampleEnv (exampleRequest ''/api/bad'') (exampleSocket 1) 1000 initialRuntime)
     = Returned
   \<and> 1 \<in> destroyedSockets
       (snd (handleUpgrade exampleEnv (exampleRequest ''/api/bad'') (exampleSocket 1) 1000 initialRuntime))
   \<and> 1 \<notin> activeUpgrades (tracker
       (snd (handleUpgrade exampleEnv (exampleRequest ''/api/bad'') (exampleSocket 1) 1000 initialRuntime)))"
  by (simp add: pipeline_defs example_defs)

lemma getOrInitializeConnectionHandler_cached:
  "connectionHandlerCache s r = Some h \<Longrightarrow>
     getOrInitializeConnectionHandler env f r s = (Some h, s)"
  by (simp add: getOrInitializeConnectionHandler_def)

lemma getOrInitializeConnectionHandler_miss:
  assumes "connectionHandlerCache s r = None"
  shows "factoryLog (snd (getOrInitializeConnectionHandler env f r s))
           = factoryLog s @ [(r, f, runSocketHandler env f (invocationsOf f s))]"
    and "connectionHandlerCache (snd (getOrInitializeConnectionHandler env f r s))
           = (connectionHandlerCache s)
               (r := (case runSocketHandler env f (invocationsOf f s) of
                        FactoryReturns (Function h) \<Rightarrow> Some h | _ \<Rightarrow> None))"
  using assms
  by (auto simp: getOrInitializeConnectionHandler_def Let_def
      split: factory_outcome.splits js_value.splits)

lemma returnedFunction_iff:
  "returnedFunction (r, f, out) \<longleftrightarrow> (\<exists>h. out = FactoryReturns (Function h))"
  by (cases "(r, f, out)" rule: returnedFunction.cases) auto

lemma cache_invD:
  "cache_inv s \<Longrightarrow>
     list_all (\<lambda>e. \<not> returnedFunction e)
       (if connectionHandlerCache s r = None then invocationsFor r s
        else butlast (invocationsFor r s))"
  by (simp add: cache_inv_def)

lemma cache_inv_getOrInitialize:
  assumes "cache_inv s"
  shows "cache_inv (snd (getOrInitializeConnectionHandler env f r s))"
proof (cases "connectionHandlerCache s r")
  case (Some h)
  with assms show ?thesis by (simp add: getOrInitializeConnectionHandler_cached)
next
  case None
  let ?out = "runSocketHandler env f (invocationsOf f s)"
  let ?s' = "snd (getOrInitializeConnectionHandler env f r s)"
  note miss = getOrInitializeConnectionHandler_miss [OF None, of env f]
  from cache_invD [OF assms, of r] None
  have old: "list_all (\<lambda>e. \<not> returnedFunction e) (invocationsFor r s)"
    by simp
  have "list_all (\<lambda>e. \<not> returnedFunction e)
          (if connectionHandlerCache ?s' q = None then invocationsFor q ?s'
           else butlast (invocationsFor q ?s'))" for q
  proof (cases "q = r")
    case False
    then have "invocationsFor q ?s' = invocationsFor q s"
      and "connectionHandlerCache ?s' q = connectionHandlerCache s q"
      by (simp_all add: miss invocationsFor_def)
    with cache_invD [OF assms, of q] show ?thesis by (auto split: if_splits)
  next
    case True
    have inv: "invocationsFor r ?s' = invocationsFor r s @ [(r, f, ?out)]"
      by (simp add: miss invocationsFor_def)
    show ?thesis
    proof (cases "\<exists>h. ?out = FactoryReturns (Function h)")
      case True
      then obtain h where "?out = FactoryReturns (Function h)" by blast
      then have "connectionHandlerCache ?s' r = Some h" by (simp add: miss)
      with old inv \<open>q = r\<close> show ?thesis by simp
    next
      case False
      then have c: "connectionHandlerCache ?s' r = None"
        by (auto simp: miss split: factory_outcome.splits js_value.splits)
      from False have "\<not> returnedFunction (r, f, ?out)" by (simp add: returnedFunction_iff)
      with old inv c \<open>q = r\<close> show ?thesis by simp
    qed
  qed
  then show ?thesis by (simp add: cache_inv_def)
qed

lemma cache_inv_cong:
  "connectionHandlerCache s' = connectionHandlerCache s \<Longrightarrow> factoryLog s' = factoryLog s \<Longrightarrow>
     cache_inv s' = cache_inv s"
  by (simp add: cache_inv_def invocationsFor_def)

lemma cache_inv_tracker: "cache_inv (s\<lparr> tracker := t \<rparr>) = cache_inv s"
  by (rule cache_inv_cong) simp_all

lemma cache_inv_destroyAndRelease: "cache_inv (destroyAndRelease sock s) = cache_inv s"
  by (rule cache_inv_cong) (simp_all add: destroyAndRelease_def)

lemma cache_inv_delegate: "cache_inv (s\<lparr> delegatedUpgrades := d \<rparr>) = cache_inv s"
  by (rule cache_inv_cong) simp_all

lemma cache_inv_checkRateLimit:
  "cache_inv (snd (checkRateLimit p rule req sock now s)) = cache_inv s"
  by (rule cache_inv_cong) (simp_all add: checkRateLimit_def Let_def case_prod_beta)

lemma cache_inv_resolveAndDelegate:
  assumes "cache_inv s"
  shows "cache_inv (snd (resolveAndDelegate env sock pathname s))"
proof (cases "resolveWebSocketRoute env pathname")
  case (Inl err)
  with assms show ?thesis by (simp add: resolveAndDelegate_def)
next
  case (Inr res)
  show ?thesis
  proof (cases res)
    case None
    with Inr assms show ?thesis
      by (simp add: resolveAndDelegate_def cache_inv_destroyAndRelease)
  next
    case (Some rr)
    let ?g = "getOrInitializeConnectionHandler env (handler rr) pathname s"
    from assms have g: "cache_inv (snd ?g)" by (rule cache_inv_getOrInitialize)
    show ?thesis
    proof (cases "fst ?g")
      case None
      then have "snd (resolveAndDelegate env sock pathname s) = destroyAndRelease sock (snd ?g)"
        using Inr Some by (simp add: resolveAndDelegate_def case_prod_beta)
      with g show ?thesis by (simp add: cache_inv_destroyAndRelease)
    next
      case (Some h)
      then have "snd (resolveAndDelegate env sock pathname s)
          = (snd ?g)\<lparr> delegatedUpgrades :=
               delegatedUpgrades (snd ?g) @ [(socketId sock, pathname, h)] \<rparr>"
        using Inr \<open>res = Some rr\<close> by (simp add: resolveAndDelegate_def case_prod_beta)
      with g show ?thesis by (simp add: cache_inv_delegate)
    qed
  qed
qed

lemma cache_inv_handleUpgrade:
  assumes "cache_inv s"
  shows "cache_inv (snd (handleUpgrade env request sock now s))"
proof (cases "isSocketActive sock (tracker s)")
  case True
  with assms show ?thesis by (simp add: handleUpgrade_def Let_def)
next
  case False
  let ?s1 = "s\<lparr> tracker := markSocketActive sock (tracker s) \<rparr>"
  let ?u = "case url request of Some u \<Rightarrow> (if u = [] then ''/'' else u) | None \<Rightarrow> ''/''"
  let ?h = "case hostHeader request of
              Some h \<Rightarrow> (if h = [] then ''localhost'' else h) | None \<Rightarrow> ''localhost''"
  have s1: "cache_inv ?s1" using assms by (simp add: cache_inv_tracker)
  show ?thesis
  proof (cases "parsePathname env ?u ?h")
    case None
    with False s1 show ?thesis by (simp add: handleUpgrade_def Let_def)
  next
    case (Some pathname)
    show ?thesis
    proof (cases "startsWith pathname ''/_next/''")
      case True
      with False Some assms show ?thesis
        by (simp add: handleUpgrade_def Let_def cache_inv_tracker)
    next
      case internal: False
      show ?thesis
      proof (cases "routeRateLimit env pathname")
        case None
        then have "snd (handleUpgrade env request sock now s)
            = snd (resolveAndDelegate env sock pathname ?s1)"
          using False Some internal by (simp add: handleUpgrade_def Let_def)
        with cache_inv_resolveAndDelegate [OF s1] show ?thesis by simp
      next
        case (Some rule)
        let ?c = "checkRateLimit pathname rule request sock now ?s1"
        from s1 have c: "cache_inv (snd ?c)" by (simp add: cache_inv_checkRateLimit)
        have "snd (handleUpgrade env request sock now s)
            = (if \<not> fst ?c then destroyAndRelease sock (snd ?c)
               else snd (resolveAndDelegate env sock pathname (snd ?c)))"
          using False \<open>parsePathname env ?u ?h = Some pathname\<close> internal Some
          by (simp add: handleUpgrade_def Let_def case_prod_beta)
        with c cache_inv_resolveAndDelegate [OF c] show ?thesis
          by (simp add: cache_inv_destroyAndRelease)
      qed
    qed
  qed
qed

lemma cache_inv_run_upgrades:
  "cache_inv s \<Longrightarrow> cache_inv (run_upgrades env ups s)"
proof (induction ups arbitrary: s)
  case Nil
  then show ?case by simp
next
  case (Cons u ups)
  obtain request sock now where u: "u = (request, sock, now)" by (cases u)
  from Cons.prems have "cache_inv (snd (handleUpgrade env request sock now s))"
    by (rule cache_inv_handleUpgrade)
  from Cons.IH [OF this] u show ?case by simp
qed

lemma list_all_butlast: "list_all P xs \<Longrightarrow> list_all P (butlast xs)"
  by (auto simp: list_all_iff dest: in_set_butlastD)

lemma cache_inv_butlast:
  assumes "cache_inv s"
  shows "list_all (\<lambda>e. \<not> returnedFunction e) (butlast (invocationsFor r s))"
proof (cases "connectionHandlerCache s r")
  case None
  with cache_invD [OF assms, of r] show ?thesis by (simp add: list_all_butlast)
next
  case (Some h)
  with cache_invD [OF assms, of r] show ?thesis by simp
qed


text \<open>
  One handler run without another event in between is \<open>handleUpgrade\<close>.
\<close>

lemma handleUpgrade_as_steps:
  "handleUpgrade env request sock now s =
     (case beginUpgrade env request sock now s of
        (Finished outcome, s1) \<Rightarrow> (outcome, s1)
      | (Suspended task1, s1) \<Rightarrow>
          (case resumeTask env task1 s1 of
             (Finished outcome, s2) \<Rightarrow> (outcome, s2)
           | (Suspended task2, s2) \<Rightarrow>
               (case resumeTask env task2 s2 of
                  (Finished outcome, s3) \<Rightarrow> (outcome, s3)
                | (Suspended task3, s3) \<Rightarrow> (Returned, s3))))"
proof -
  have rd: "resolveAndDelegate env sock p s' =
      (case afterResolution env sock p s' of
         (Finished outcome, s2) \<Rightarrow> (outcome, s2)
       | (Suspended task2, s2) \<Rightarrow>
           (case resumeTask env task2 s2 of
              (Finished outcome, s3) \<Rightarrow> (outcome, s3)
            | (Suspended task3, s3) \<Rightarrow> (Returned, s3)))" for p s'
    by (simp add: resolveAndDelegate_def afterResolution_def afterFactory_def resumeTask_def
        getOrInitializeConnectionHandler_def destroyAndRelease_def Let_def
        split: sum.splits option.splits factory_outcome.splits js_value.splits)
  show ?thesis
    by (simp add: handleUpgrade_def beginUpgrade_def Let_def rd resumeTask_def
        case_prod_beta split: option.splits)
qed

text \<open>
  Two defects of the code that the amended claim below leaves out. The documentation of
  the \<open>SOCKET\<close> export says that it is called once; but when a second upgrade for a
  route arrives while the first waits for the factory, the factory is invoked for both,
  although it succeeds; and the cache is keyed by the request path, so the factory of a
  parameterised route is invoked once for every path that reaches it.
\<close>

lemma factory_invoked_twice_when_upgrades_overlap:
  "invocationsFor ''/api/echo''
     (shared (run_schedule exampleEnv
        [UpgradeArrives (exampleRequest ''/api/echo'') (exampleSocket 1) 1000,
         UpgradeArrives (exampleRequest ''/api/echo'') (exampleSocket 2) 1001,
         Resume 0, Resume 1, Resume 0, Resume 1]
        (idleLoop initialRuntime)))
   = [(''/api/echo'', 7, FactoryReturns (Function 9)),
      (''/api/echo'', 7, FactoryReturns (Function 9))]"
  by (simp add: pipeline_defs example_defs invocationsFor_def idleLoop_def settle_def
      beginUpgrade_def resumeTask_def afterResolution_def afterFactory_def)

lemma factory_invoked_for_each_path_of_a_route:
  "factoryLog
     (run_upgrades exampleRoomEnv
        [(exampleRequest ''/api/room/1'', exampleSocket 1, 1000),
         (exampleRequest ''/api/room/2'', exampleSocket 2, 5000)]
        initialRuntime)
   = [(''/api/room/1'', 7, FactoryReturns (Function 9)),
      (''/api/room/2'', 7, FactoryReturns (Function 9))]"
  by (simp add: pipeline_defs example_defs exampleRoomEnv_def)

text \<open>
  When no upgrade arrives while another is suspended, every invocation logged for a
  request path that is followed by another one for that path had failed.
\<close>

lemma sequential_upgrades_one_success:
  "factoryLog s0 = [] \<Longrightarrow>
     list_all (\<lambda>e. \<not> returnedFunction e)
       (butlast (invocationsFor r0 (run_upgrades env ups s0)))"
proof -
  assume "factoryLog s0 = []"
  then have "cache_inv s0" by (simp add: cache_inv_def invocationsFor_def)
  then have "cache_inv (run_upgrades env ups s0)" by (rule cache_inv_run_upgrades)
  then show ?thesis by (rule cache_inv_butlast)
qed


















subsection \<open>Rapid-duplicate check of the tracker\<close>










subsection \<open>Cleanup at most once\<close>

lemma recordConnectionError_fields [simp]:
  "cleanupRuns (recordConnectionError s) = cleanupRuns s"
  "cleanupObserver (recordConnectionError s) = cleanupObserver s"
  by (simp_all add: recordConnectionError_def)

lemma onUpgradeReady_runs [simp]:
  "cleanupRuns (onUpgradeReady c ws sock p mem outcome n1 n2 s) = cleanupRuns s"
  by (simp add: onUpgradeReady_def case_prod_beta split: handler_outcome.splits bool.splits)

lemma onUpgradeReady_observer:
  "cleanupObserver (onUpgradeReady c ws sock p mem outcome n1 n2 s) c' \<noteq> None \<Longrightarrow>
     c' = c \<or> cleanupObserver s c' \<noteq> None"
  by (auto simp: onUpgradeReady_def case_prod_beta split: handler_outcome.splits bool.splits if_splits)

lemma onUpgradeReady_observer_other:
  "c' \<noteq> c \<Longrightarrow>
     cleanupObserver (onUpgradeReady c ws sock p mem outcome n1 n2 s) c' = cleanupObserver s c'"
  by (auto simp: onUpgradeReady_def case_prod_beta split: handler_outcome.splits bool.splits if_splits)

lemma runCleanupObserver_runs:
  "cleanupRuns (runCleanupObserver c sock f s) c'
     = (if c' = c \<and> f \<noteq> None \<and> \<not> isConnectionCleanedUp c (lcTracker s)
        then cleanupRuns s c + 1 else cleanupRuns s c')"
  by (auto simp: runCleanupObserver_def Let_def split: option.splits)

lemma runCleanupObserver_observer [simp]:
  "cleanupObserver (runCleanupObserver c sock f s) = cleanupObserver s"
  by (auto simp: runCleanupObserver_def Let_def split: option.splits)

lemma clientClose_observer:
  "cleanupObserver (clientClose c s) = (cleanupObserver s)(c := None)"
  by (auto simp: clientClose_def Let_def split: option.splits)

lemma clientClose_runs:
  "cleanupRuns (clientClose c s) c'
     = (if c' = c \<and> (\<exists>sock f. cleanupObserver s c = Some (sock, Some f))
            \<and> \<not> isConnectionCleanedUp c (lcTracker s)
        then cleanupRuns s c + 1 else cleanupRuns s c')"
  by (auto simp: clientClose_def Let_def runCleanupObserver_runs split: option.splits)

lemma clientError_fields [simp]:
  "cleanupRuns (clientError c s) = cleanupRuns s"
  "cleanupObserver (clientError c s) = cleanupObserver s"
  by (simp_all add: clientError_def Let_def)

lemma cleanup_inv_step:
  assumes inv: "cleanup_inv (set (readyIds (e # es))) s"
    and dist: "distinct (readyIds (e # es))"
  shows "cleanup_inv (set (readyIds es)) (lifecycle_step e s)"
proof (cases e)
  case (Ready c ws sock p mem outcome n1 n2)
  let ?s' = "onUpgradeReady c ws sock p mem outcome n1 n2 s"
  from Ready dist have fresh: "c \<notin> set (readyIds es)" by simp
  from Ready have pend: "set (readyIds (e # es)) = insert c (set (readyIds es))" by simp
  have "cleanupRuns ?s' c' \<le> 1
      \<and> (cleanupObserver ?s' c' \<noteq> None \<longrightarrow> cleanupRuns ?s' c' = 0)
      \<and> (c' \<in> set (readyIds es) \<longrightarrow> cleanupObserver ?s' c' = None \<and> cleanupRuns ?s' c' = 0)"
    for c'
  proof -
    from inv pend have old: "cleanupRuns s c' \<le> 1"
      "cleanupObserver s c' \<noteq> None \<longrightarrow> cleanupRuns s c' = 0"
      "c' \<in> insert c (set (readyIds es)) \<longrightarrow> cleanupObserver s c' = None \<and> cleanupRuns s c' = 0"
      by (simp_all add: cleanup_inv_def)
    show ?thesis
    proof (cases "c' = c")
      case True
      with old fresh show ?thesis by simp
    next
      case False
      then have "cleanupObserver ?s' c' = cleanupObserver s c'"
        by (rule onUpgradeReady_observer_other)
      with old show ?thesis by simp
    qed
  qed
  with Ready show ?thesis by (simp add: cleanup_inv_def)
next
  case (ClientClose c)
  from ClientClose have pend: "set (readyIds (e # es)) = set (readyIds es)" by simp
  have "cleanupRuns (clientClose c s) c' \<le> 1
      \<and> (cleanupObserver (clientClose c s) c' \<noteq> None \<longrightarrow> cleanupRuns (clientClose c s) c' = 0)
      \<and> (c' \<in> set (readyIds es) \<longrightarrow>
            cleanupObserver (clientClose c s) c' = None \<and> cleanupRuns (clientClose c s) c' = 0)"
    for c'
  proof -
    from inv pend have old: "cleanupRuns s c' \<le> 1"
      "cleanupObserver s c' \<noteq> None \<longrightarrow> cleanupRuns s c' = 0"
      "c' \<in> set (readyIds es) \<longrightarrow> cleanupObserver s c' = None \<and> cleanupRuns s c' = 0"
      by (simp_all add: cleanup_inv_def)
    then show ?thesis
      by (auto simp: clientClose_runs clientClose_observer)
  qed
  with ClientClose show ?thesis by (simp add: cleanup_inv_def)
next
  case (ClientError c)
  with inv show ?thesis by (simp add: cleanup_inv_def)
next
  case (CleanedUpExpiry c)
  with inv show ?thesis by (simp add: cleanup_inv_def)
qed

lemma cleanup_inv_run:
  "cleanup_inv (set (readyIds es)) s \<Longrightarrow> distinct (readyIds es) \<Longrightarrow>
     cleanup_inv {} (run_lifecycle es s)"
proof (induction es arbitrary: s)
  case Nil
  then show ?case by simp
next
  case (Cons e es)
  from cleanup_inv_step [OF Cons.prems] have step: "cleanup_inv (set (readyIds es)) (lifecycle_step e s)" .
  from Cons.prems(2) have "distinct (readyIds es)" by (cases e) simp_all
  from Cons.IH [OF step this] show ?case by simp
qed

text \<open>
  Claim C3. Take any history of handshake callbacks, \<open>close\<close> events, \<open>error\<close>
  events and expiries of the cleaned-up marks, in any order and number, in which no
  connection id is generated twice. Then the user's cleanup function of every connection
  id has been called at most once. In particular a second \<open>close\<close> event for a
  connection calls nothing.
\<close>

theorem cleanup_runs_at_most_once:
  "(distinct (readyIds es) \<longrightarrow>
      cleanupRuns (run_lifecycle es (initialLifecycle pool)) c \<le> 1)
   \<and> cleanupRuns (clientClose c (clientClose c s)) c = cleanupRuns (clientClose c s) c"
proof -
  have "cleanup_inv (set (readyIds es)) (initialLifecycle pool)"
    by (simp add: cleanup_inv_def initialLifecycle_def)
  then have "distinct (readyIds es) \<Longrightarrow> cleanup_inv {} (run_lifecycle es (initialLifecycle pool))"
    by (rule cleanup_inv_run)
  then have a: "distinct (readyIds es) \<longrightarrow>
      cleanupRuns (run_lifecycle es (initialLifecycle pool)) c \<le> 1"
    by (simp add: cleanup_inv_def)
  have "cleanupObserver (clientClose c s) c = None"
    by (simp add: clientClose_observer)
  then have b: "cleanupRuns (clientClose c (clientClose c s)) c = cleanupRuns (clientClose c s) c"
    by (simp add: clientClose_runs [of c "clientClose c s"])
  from a b show ?thesis by blast
qed

theorem cleanup_runs_at_most_once_witness:
  "distinct (readyIds
      [Ready ''c1'' 1 (exampleSocket 1) ''/api/echo'' True (HandlerReturns (Some False)) 0 0,
       ClientClose ''c1'', ClientError ''c1'', ClientClose ''c1'',
       CleanedUpExpiry ''c1'', ClientClose ''c1''])
   \<and> cleanupRuns (run_lifecycle
      [Ready ''c1'' 1 (exampleSocket 1) ''/api/echo'' True (HandlerReturns (Some False)) 0 0,
       ClientClose ''c1'', ClientError ''c1'', ClientClose ''c1'',
       CleanedUpExpiry ''c1'', ClientClose ''c1'']
      (initialLifecycle (newConnectionPool 10 300000 True))) ''c1'' \<le> 1
   \<and> cleanupRuns (run_lifecycle
      [Ready ''c1'' 1 (exampleSocket 1) ''/api/echo'' True (HandlerReturns (Some False)) 0 0,
       ClientClose ''c1'']
      (initialLifecycle (newConnectionPool 10 300000 True))) ''c1'' = 1"
proof -
  let ?es = "[Ready ''c1'' 1 (exampleSocket 1) ''/api/echo'' True (HandlerReturns (Some False)) 0 0,
       ClientClose ''c1'', ClientError ''c1'', ClientClose ''c1'',
       CleanedUpExpiry ''c1'', ClientClose ''c1'']"
  have d: "distinct (readyIds ?es)" by simp
  from cleanup_runs_at_most_once [of ?es "newConnectionPool 10 300000 True" "''c1''"] d
  have le: "cleanupRuns (run_lifecycle ?es (initialLifecycle (newConnectionPool 10 300000 True)))
      ''c1'' \<le> 1" by blast
  have one: "cleanupRuns (run_lifecycle
      [Ready ''c1'' 1 (exampleSocket 1) ''/api/echo'' True (HandlerReturns (Some False)) 0 0,
       ClientClose ''c1'']
      (initialLifecycle (newConnectionPool 10 300000 True))) ''c1'' = 1"
    by (simp add: onUpgradeReady_def addConnection_def poolSize_def newConnectionPool_def
        initialLifecycle_def clientClose_def runCleanupObserver_def removeConnection_def
        isConnectionCleanedUp_def markConnectionCleanedUp_def markSocketInactive_def
        newConnectionTracker_def Let_def)
  from d le one show ?thesis by blast
qed

subsection \<open>Repeated setup\<close>

lemmas setup_defs =
  setupWebSocketServer_def clearStaleState_def clearWebSocketServer_def
  clearConnectionHandlerCache_def getConnectionPool_def isWebSocketSupported_def
  useHttpServer_def useWebSocketServer_def attachWebSocketServer_def
  initializeConnectionPool_def newConnectionPool_def exampleServer_def initialProcess_def
  Let_def

text \<open>
  A setup for a host server that is already in the listener map runs the statements that
  come before the checks, and only them.
\<close>

lemma setup_when_attached:
  "globalHttpServer st = Some h \<Longrightarrow> serverListenerMap st h \<noteq> None \<Longrightarrow>
     setupWebSocketServer ns st = clearStaleState st"
  by (auto simp: setupWebSocketServer_def clearStaleState_def clearWebSocketServer_def
      getConnectionPool_def useHttpServer_def Let_def split: option.splits)

text \<open>
  Claim C9, at the input of a repeated setup: setup is called three times for the same
  server (host server 1, enabled), from a fresh process. The first call constructs the
  WebSocket server 0 and attaches the upgrade listener that uses it. The second call is
  caught by the check of the listener map (no listener or server is added), but the
  clearing before the check has already closed WebSocket server 0 and removed its handle,
  so the state is not the one before the call: the attached listener now hands upgrades to
  a closed server, and a handler cached in between is gone. The third call does not repair
  it: no WebSocket server is constructed.
\<close>

theorem second_setup_closes_live_server:
  "serverListenerMap (setupWebSocketServer exampleServer initialProcess) 1 = Some (0, 0)
   \<and> upgradeListeners (setupWebSocketServer exampleServer initialProcess) 1 = [0]
   \<and> globalWebSocketServer (setupWebSocketServer exampleServer initialProcess) = Some 0
   \<and> 0 \<notin> closedWebSocketServers (setupWebSocketServer exampleServer initialProcess)
   \<and> globalWebSocketServer
       (setupWebSocketServer exampleServer (setupWebSocketServer exampleServer initialProcess))
     = None
   \<and> 0 \<in> closedWebSocketServers
       (setupWebSocketServer exampleServer (setupWebSocketServer exampleServer initialProcess))
   \<and> serverListenerMap
       (setupWebSocketServer exampleServer (setupWebSocketServer exampleServer initialProcess)) 1
     = Some (0, 0)
   \<and> upgradeListeners
       (setupWebSocketServer exampleServer (setupWebSocketServer exampleServer initialProcess)) 1
     = [0]
   \<and> setupWebSocketServer exampleServer (setupWebSocketServer exampleServer initialProcess)
       \<noteq> setupWebSocketServer exampleServer initialProcess
   \<and> connectionHandlerCache (runtime
       (setupWebSocketServer exampleServer
          ((setupWebSocketServer exampleServer initialProcess)
             \<lparr> runtime := initialRuntime\<lparr> connectionHandlerCache := [''/api/echo'' \<mapsto> 9] \<rparr> \<rparr>)))
       ''/api/echo''
     = None
   \<and> constructedWebSocketServers
       (setupWebSocketServer exampleServer
          (setupWebSocketServer exampleServer (setupWebSocketServer exampleServer initialProcess)))
     = 1
   \<and> globalWebSocketServer
       (setupWebSocketServer exampleServer
          (setupWebSocketServer exampleServer (setupWebSocketServer exampleServer initialProcess)))
     = None"
proof -
  let ?s1 = "setupWebSocketServer exampleServer initialProcess"
  let ?s2 = "setupWebSocketServer exampleServer ?s1"
  let ?s3 = "setupWebSocketServer exampleServer ?s2"
  let ?s1c = "?s1\<lparr> runtime := initialRuntime\<lparr> connectionHandlerCache := [''/api/echo'' \<mapsto> 9] \<rparr> \<rparr>"
  have a: "serverListenerMap ?s1 1 = Some (0, 0)"
    and u: "upgradeListeners ?s1 1 = [0]"
    and b: "globalWebSocketServer ?s1 = Some 0"
    and c: "0 \<notin> closedWebSocketServers ?s1"
    and g: "globalHttpServer ?s1 = Some 1"
    and n: "constructedWebSocketServers ?s1 = 1"
    by (simp_all add: setup_defs)
  from a g have s2: "?s2 = clearStaleState ?s1"
    by (simp add: setup_when_attached)
  have d: "globalWebSocketServer ?s2 = None"
    and e: "0 \<in> closedWebSocketServers ?s2"
    and a2: "serverListenerMap ?s2 1 = Some (0, 0)"
    and u2: "upgradeListeners ?s2 1 = [0]"
    and g2: "globalHttpServer ?s2 = Some 1"
    and n2: "constructedWebSocketServers ?s2 = 1"
    unfolding s2 using a u b g n
    by (simp_all add: clearStaleState_def clearWebSocketServer_def getConnectionPool_def
        clearConnectionHandlerCache_def Let_def split: option.splits)
  from b d have f: "?s2 \<noteq> ?s1" by auto
  from a g have "setupWebSocketServer exampleServer ?s1c = clearStaleState ?s1c"
    by (simp add: setup_when_attached)
  then have k: "connectionHandlerCache (runtime (setupWebSocketServer exampleServer ?s1c))
      ''/api/echo'' = None"
    by (simp add: clearStaleState_def clearWebSocketServer_def getConnectionPool_def
        clearConnectionHandlerCache_def Let_def split: option.splits)
  from a2 g2 have s3: "?s3 = clearStaleState ?s2"
    by (simp add: setup_when_attached)
  have n3: "constructedWebSocketServers ?s3 = 1"
    and d3: "globalWebSocketServer ?s3 = None"
    unfolding s3 using d n2
    by (simp_all add: clearStaleState_def clearWebSocketServer_def getConnectionPool_def
        clearConnectionHandlerCache_def Let_def split: option.splits)
  from a u b c d e a2 u2 f k n3 d3 show ?thesis by blast
qed

end
